theory Spec2Isabelle
  imports Complex_Main "HOL-Library.Word"
begin

unbundle bit_operations_syntax

section \<open>Data model\<close>

text \<open>
  The program is a PyQt5 front end over python-vlc. Three classes carry its state:
  \<^verbatim>\<open>PlayerWindow\<close> (a \<^verbatim>\<open>QWidget\<close> holding one vlc player),
  \<^verbatim>\<open>ControlPanel\<close> (the buttons and sliders of one slot, owning one
  \<^verbatim>\<open>PlayerWindow\<close>) and \<^verbatim>\<open>MainWindow\<close> (the panels and
  the one shared \<^verbatim>\<open>QTimer\<close>).

  The toolkit and the engine are outside the repository. Each widget and the native player
  are modelled by the properties the source reads and writes: a setter stores its argument,
  a getter returns what was stored last. Two setters do more than store, and are modelled so: a slider bounds
  the value to its range, and the volume slider emits \<^verbatim>\<open>valueChanged\<close>, which the
  source connects to \<^verbatim>\<open>set_volume_action\<close>. What the user or the engine answers
  when asked (the chosen file name, the title found by the parser, the return code of
  \<^verbatim>\<open>play()\<close> for the media attached) is an argument of the operation that asks; the
  displays are a field of the state. Positions are real numbers where Python has floats.
\<close>

datatype py_error = TypeError | AttributeError

subsection \<open>Qt values\<close>

type_synonym window_flags = "32 word"

definition Qt_Window :: window_flags where
  "Qt_Window = 0x00000001"

definition Qt_FramelessWindowHint :: window_flags where
  "Qt_FramelessWindowHint = 0x00000800"

text \<open>\<^verbatim>\<open>qBound(min, value, max)\<close>, by which a slider keeps a value set in its
  range.\<close>

definition qBound :: "int \<Rightarrow> int \<Rightarrow> int \<Rightarrow> int" where
  "qBound lo v hi = max lo (min hi v)"

text \<open>\<^verbatim>\<open>QRect\<close>: \<^verbatim>\<open>x()\<close>, \<^verbatim>\<open>y()\<close>,
  \<^verbatim>\<open>width()\<close>, \<^verbatim>\<open>height()\<close>.\<close>

record rect =
  rx :: int
  ry :: int
  rw :: int
  rh :: int

text \<open>\<^verbatim>\<open>QMargins\<close>: \<^verbatim>\<open>left()\<close>, \<^verbatim>\<open>top()\<close>,
  \<^verbatim>\<open>right()\<close>, \<^verbatim>\<open>bottom()\<close>.\<close>

record margins =
  m_left :: int
  m_top :: int
  m_right :: int
  m_bottom :: int

text \<open>\<^verbatim>\<open>QApplication.desktop()\<close>: \<^verbatim>\<open>screenCount()\<close> and
  \<^verbatim>\<open>screenGeometry(n)\<close>.\<close>

record desktop =
  screenCount :: int
  screenGeometry :: "int \<Rightarrow> rect"

text \<open>\<^verbatim>\<open>QTimer\<close>: the interval set by \<^verbatim>\<open>setInterval\<close> and whether
  the timer runs.\<close>

record qtimer =
  interval :: int
  active :: bool

subsection \<open>The engine\<close>

text \<open>
  A media object is identified by the order in which its \<^verbatim>\<open>vlc.Instance\<close>
  created it: two objects are the same object exactly when they have the same number.
\<close>

datatype media = Media (media_id: nat) (mrl: string)

text \<open>The \<^verbatim>\<open>vlc.Instance\<close>: how many media objects it has created.\<close>

record vlc_instance =
  created :: nat

text \<open>The native player: the media attached by \<^verbatim>\<open>set_media\<close>, what
  \<^verbatim>\<open>is_playing()\<close> and \<^verbatim>\<open>get_position()\<close> report, and the volume set by
  \<^verbatim>\<open>audio_set_volume\<close>.\<close>

record vlc_player =
  np_media :: "media option"
  np_playing :: bool
  np_volume :: int
  np_position :: real

subsection \<open>The calls whose order matters\<close>

text \<open>
  Every command the source sends to the engine, to the shared timer and to the window's
  visibility is recorded, in the order the source issues it.
\<close>

datatype call =
    MediaNew string
  | SetMedia "media option"
  | Parse media
  | Play
  | Pause
  | Stop
  | AudioSetVolume int
  | SetPosition real
  | TimerStart
  | TimerStop
  | Hide
  | Show
  | ShowFullScreen
  | ShowNormal

subsection \<open>PlayerWindow, ControlPanel, MainWindow\<close>

text \<open>The part of \<^verbatim>\<open>QWidget\<close> that \<^verbatim>\<open>PlayerWindow\<close> inherits and uses.\<close>

record qwidget =
  pos_x :: int
  pos_y :: int
  width :: int
  height :: int
  windowFlags :: window_flags
  isHidden :: bool
  isFullScreen :: bool
  windowTitle :: string

text \<open>\<^verbatim>\<open>class PlayerWindow(QWidget)\<close>; \<open>layout\<close> holds the contents margins
  of the \<^verbatim>\<open>QVBoxLayout\<close> kept in \<^verbatim>\<open>_layout\<close>.\<close>

record player_window = qwidget +
  media :: "media option"
  volume :: int
  wnd_x :: "int option"
  wnd_y :: "int option"
  wnd_w :: "int option"
  wnd_h :: "int option"
  wnd_flags :: "window_flags option"
  ly_margins :: "margins option"
  is_fullscreen :: bool
  vlc_instance :: vlc_instance
  vlc_player :: vlc_player
  layout :: margins

text \<open>\<^verbatim>\<open>class ControlPanel(QGroupBox)\<close>: the text of the play/pause button and the
  values of the two sliders.\<close>

record control_panel =
  screen_num :: int
  player :: player_window
  play_pause_button :: string
  volume_slider :: int
  position_slider :: int

text \<open>
  What one method of a \<^verbatim>\<open>PlayerWindow\<close> can reach: its panel
  (\<^verbatim>\<open>self._owner\<close>, which holds the window itself), the timer of the main window
  (\<^verbatim>\<open>self._owner._owner._timer\<close>), the desktop, and the calls issued so far.
\<close>

record slot =
  panel :: control_panel
  timer :: qtimer
  desktop :: desktop
  calls :: "call list"

record main_window =
  controls :: "control_panel list"
  main_timer :: qtimer

section \<open>Toolkit and engine operations\<close>

definition record_call :: "call \<Rightarrow> slot \<Rightarrow> slot" where
  "record_call c s = s\<lparr>calls := calls s @ [c]\<rparr>"

definition self :: "slot \<Rightarrow> player_window" where
  "self s = player (panel s)"

definition upd_self :: "(player_window \<Rightarrow> player_window) \<Rightarrow> slot \<Rightarrow> slot" where
  "upd_self f s = s\<lparr>panel := (panel s)\<lparr>player := f (player (panel s))\<rparr>\<rparr>"

definition upd_vlc :: "(vlc_player \<Rightarrow> vlc_player) \<Rightarrow> slot \<Rightarrow> slot" where
  "upd_vlc f s = upd_self (\<lambda>p. p\<lparr>vlc_player := f (vlc_player p)\<rparr>) s"

definition hide :: "slot \<Rightarrow> slot" where
  "hide s = record_call Hide (upd_self (\<lambda>p. p\<lparr>isHidden := True\<rparr>) s)"

definition show_widget :: "slot \<Rightarrow> slot" where
  "show_widget s = record_call Show (upd_self (\<lambda>p. p\<lparr>isHidden := False\<rparr>) s)"

definition showFullScreen :: "slot \<Rightarrow> slot" where
  "showFullScreen s =
     record_call ShowFullScreen (upd_self (\<lambda>p. p\<lparr>isHidden := False, isFullScreen := True\<rparr>) s)"

definition showNormal :: "slot \<Rightarrow> slot" where
  "showNormal s =
     record_call ShowNormal (upd_self (\<lambda>p. p\<lparr>isHidden := False, isFullScreen := False\<rparr>) s)"

definition setWindowFlags :: "window_flags \<Rightarrow> slot \<Rightarrow> slot" where
  "setWindowFlags f s = upd_self (\<lambda>p. p\<lparr>windowFlags := f\<rparr>) s"

definition setContentsMargins :: "int \<Rightarrow> int \<Rightarrow> int \<Rightarrow> int \<Rightarrow> slot \<Rightarrow> slot" where
  "setContentsMargins l t r b s =
     upd_self (\<lambda>p. p\<lparr>layout := \<lparr>m_left = l, m_top = t, m_right = r, m_bottom = b\<rparr>\<rparr>) s"

definition move :: "int \<Rightarrow> int \<Rightarrow> slot \<Rightarrow> slot" where
  "move x y s = upd_self (\<lambda>p. p\<lparr>pos_x := x, pos_y := y\<rparr>) s"

definition resize :: "int \<Rightarrow> int \<Rightarrow> slot \<Rightarrow> slot" where
  "resize w h s = upd_self (\<lambda>p. p\<lparr>width := w, height := h\<rparr>) s"

text \<open>PyQt5 takes \<^verbatim>\<open>None\<close> for a string argument as the empty string.\<close>

definition setWindowTitle :: "string option \<Rightarrow> slot \<Rightarrow> slot" where
  "setWindowTitle t s =
     upd_self (\<lambda>p. p\<lparr>windowTitle := (case t of None \<Rightarrow> [] | Some x \<Rightarrow> x)\<rparr>) s"

definition setText :: "string \<Rightarrow> slot \<Rightarrow> slot" where
  "setText t s = s\<lparr>panel := (panel s)\<lparr>play_pause_button := t\<rparr>\<rparr>"

text \<open>The value of the volume slider, stored.\<close>

definition store_volume_slider :: "int \<Rightarrow> slot \<Rightarrow> slot" where
  "store_volume_slider v s = s\<lparr>panel := (panel s)\<lparr>volume_slider := v\<rparr>\<rparr>"

definition timer_start :: "slot \<Rightarrow> slot" where
  "timer_start s = record_call TimerStart (s\<lparr>timer := (timer s)\<lparr>active := True\<rparr>\<rparr>)"

definition timer_stop :: "slot \<Rightarrow> slot" where
  "timer_stop s = record_call TimerStop (s\<lparr>timer := (timer s)\<lparr>active := False\<rparr>\<rparr>)"

text \<open>
  \<^verbatim>\<open>play()\<close> returns \<open>-1\<close> when playback did not start. A player with no media
  attached has nothing to play and answers \<open>-1\<close>; with media attached the answer is
  \<open>rc\<close>, what the engine makes of the file.
\<close>

definition vlc_play :: "int \<Rightarrow> slot \<Rightarrow> int \<times> slot" where
  "vlc_play rc s =
     (if np_media (vlc_player (self s)) = None \<or> rc = -1 then (-1, record_call Play s)
      else (rc, record_call Play (upd_vlc (\<lambda>v. v\<lparr>np_playing := True\<rparr>) s)))"

definition vlc_pause :: "slot \<Rightarrow> slot" where
  "vlc_pause s = record_call Pause (upd_vlc (\<lambda>v. v\<lparr>np_playing := False\<rparr>) s)"

definition vlc_stop :: "slot \<Rightarrow> slot" where
  "vlc_stop s = record_call Stop (upd_vlc (\<lambda>v. v\<lparr>np_playing := False\<rparr>) s)"

definition vlc_set_media :: "media option \<Rightarrow> slot \<Rightarrow> slot" where
  "vlc_set_media m s = record_call (SetMedia m) (upd_vlc (\<lambda>v. v\<lparr>np_media := m\<rparr>) s)"

definition vlc_audio_set_volume :: "int \<Rightarrow> slot \<Rightarrow> slot" where
  "vlc_audio_set_volume n s =
     record_call (AudioSetVolume n) (upd_vlc (\<lambda>v. v\<lparr>np_volume := n\<rparr>) s)"

definition vlc_set_position :: "real \<Rightarrow> slot \<Rightarrow> slot" where
  "vlc_set_position x s =
     record_call (SetPosition x) (upd_vlc (\<lambda>v. v\<lparr>np_position := x\<rparr>) s)"

text \<open>\<^verbatim>\<open>media_new(filename)\<close> returns an object that did not exist before.\<close>

definition vlc_media_new :: "string \<Rightarrow> slot \<Rightarrow> media \<times> slot" where
  "vlc_media_new filename s =
     (Media (created (vlc_instance (self s))) filename,
      record_call (MediaNew filename)
        (upd_self (\<lambda>p. p\<lparr>vlc_instance := \<lparr>created = Suc (created (vlc_instance p))\<rparr>\<rparr>) s))"

definition media_parse :: "media \<Rightarrow> slot \<Rightarrow> slot" where
  "media_parse m s = record_call (Parse m) s"

section \<open>PlayerWindow\<close>

text \<open>\<^verbatim>\<open>stop_action\<close>: stop the video.\<close>

definition stop_action :: "slot \<Rightarrow> slot" where
  "stop_action s = setText ''Play'' (vlc_stop s)"

text \<open>\<^verbatim>\<open>release_media\<close>: release resources associated with the video.\<close>

definition release_media :: "slot \<Rightarrow> slot" where
  "release_media s =
     (if media (self s) = None then s
      else let s1 = stop_action s;
               s2 = vlc_set_media None s1
           in upd_self (\<lambda>p. p\<lparr>media := None\<rparr>) s2)"

text \<open>\<^verbatim>\<open>set_volume_action\<close>: set video volume.\<close>

definition set_volume_action :: "int \<Rightarrow> slot \<Rightarrow> slot" where
  "set_volume_action v s =
     (let s1 = upd_self (\<lambda>p. p\<lparr>volume := v\<rparr>) s
      in if media (self s1) = None then s1
         else vlc_audio_set_volume (volume (self s1)) s1)"

text \<open>
  \<^verbatim>\<open>setValue\<close> on the volume slider, whose range is 0 to 100: the value is bounded
  to the range; if that is the value the slider has, nothing happens; otherwise it is stored
  and \<^verbatim>\<open>valueChanged\<close> is emitted, which \<^verbatim>\<open>ControlPanel.create_ui\<close> connects
  to \<^verbatim>\<open>set_volume_action\<close>.
\<close>

definition volume_slider_setValue :: "int \<Rightarrow> slot \<Rightarrow> slot" where
  "volume_slider_setValue v s =
     (let b = qBound 0 v 100
      in if b = volume_slider (panel s) then s
         else set_volume_action b (store_volume_slider b s))"

text \<open>\<^verbatim>\<open>set_position_action\<close>: set video position.\<close>

definition set_position_action :: "slot \<Rightarrow> slot" where
  "set_position_action s =
     (if media (self s) = None then s
      else let s1 = timer_stop s;
               pos = position_slider (panel s1);
               s2 = vlc_set_position (real_of_int pos / 1000) s1
           in timer_start s2)"

text \<open>
  \<^verbatim>\<open>open_action\<close>: open a video to play.
  \<open>filename\<close> is what the file dialog returned (empty when the user cancelled), \<open>title\<close>
  what \<^verbatim>\<open>get_meta(0)\<close> returns after the parse (\<^verbatim>\<open>None\<close> when the engine has
  no title).
\<close>

definition open_action :: "string \<Rightarrow> string option \<Rightarrow> slot \<Rightarrow> slot" where
  "open_action filename title s =
     (if filename = [] then s
      else let s1 = release_media s;
               (m, s2) = vlc_media_new filename s1;
               s3 = upd_self (\<lambda>p. p\<lparr>media := Some m\<rparr>) s2;
               s4 = vlc_set_media (media (self s3)) s3;
               s5 = media_parse m s4;
               s6 = volume_slider_setValue (volume (self s5)) s5;
               s7 = setWindowTitle title s6
           in show_widget s7)"

text \<open>\<^verbatim>\<open>play_pause_action\<close>: play or pause the video; \<open>rc\<close> is what
  \<^verbatim>\<open>play()\<close> returns for the media attached, if it is called.\<close>

definition play_pause_action :: "int \<Rightarrow> slot \<Rightarrow> slot" where
  "play_pause_action rc s =
     (if np_playing (vlc_player (self s)) then setText ''Play'' (vlc_pause s)
      else let (r, s1) = vlc_play rc s
           in if r = -1 then s1
              else let s2 = (if isHidden (self s1) then show_widget s1 else s1);
                       s3 = setText ''Pause'' s2
                   in timer_start s3)"

text \<open>
  \<^verbatim>\<open>toggle_fullscreen_action\<close>: toggle the player to or from full screen mode.
  The saved geometry is \<^verbatim>\<open>None\<close> until the first transition to full screen; the
  restoring branch passes it to Qt setters that reject \<^verbatim>\<open>None\<close>.
\<close>

definition toggle_fullscreen_action :: "slot \<Rightarrow> py_error + slot" where
  "toggle_fullscreen_action s =
     (if media (self s) = None then Inr s
      else let s1 = hide s
           in if \<not> is_fullscreen (self s1) then
                let s2 = upd_self (\<lambda>p. p\<lparr>wnd_x := Some (pos_x p)\<rparr>) s1;
                    s3 = upd_self (\<lambda>p. p\<lparr>wnd_y := Some (pos_y p)\<rparr>) s2;
                    s4 = upd_self (\<lambda>p. p\<lparr>wnd_w := Some (width p)\<rparr>) s3;
                    s5 = upd_self (\<lambda>p. p\<lparr>wnd_h := Some (height p)\<rparr>) s4;
                    s6 = upd_self (\<lambda>p. p\<lparr>wnd_flags := Some (windowFlags p)\<rparr>) s5;
                    s7 = upd_self (\<lambda>p. p\<lparr>ly_margins := Some (layout p)\<rparr>) s6;
                    screen_number = screen_num (panel s7);
                    screen_count = screenCount (desktop s7);
                    screenres = screenGeometry (desktop s7)
                      (if screen_number < screen_count then screen_number else 0);
                    s8 = setWindowFlags (Qt_Window OR Qt_FramelessWindowHint) s7;
                    s9 = setContentsMargins 0 0 0 0 s8;
                    s10 = move (rx screenres) (ry screenres) s9;
                    s11 = resize (rw screenres) (rh screenres) s10;
                    s12 = showFullScreen s11
                in Inr (upd_self (\<lambda>p. p\<lparr>is_fullscreen := True\<rparr>) s12)
              else
                (case wnd_flags (self s1) of
                   None \<Rightarrow> Inl TypeError
                 | Some f \<Rightarrow>
                     let s2 = setWindowFlags f s1
                     in (case ly_margins (self s2) of
                           None \<Rightarrow> Inl AttributeError
                         | Some m \<Rightarrow>
                             let s3 = setContentsMargins
                                        (m_left m) (m_top m) (m_right m) (m_bottom m) s2
                             in (case (wnd_x (self s3), wnd_y (self s3)) of
                                   (Some x, Some y) \<Rightarrow>
                                     let s4 = move x y s3
                                     in (case (wnd_w (self s4), wnd_h (self s4)) of
                                           (Some w, Some h) \<Rightarrow>
                                             let s5 = resize w h s4;
                                                 s6 = showNormal s5
                                             in Inr (upd_self
                                                  (\<lambda>p. p\<lparr>is_fullscreen := False\<rparr>) s6)
                                         | _ \<Rightarrow> Inl TypeError)
                                 | _ \<Rightarrow> Inl TypeError))))"

text \<open>\<^verbatim>\<open>close_action\<close>: close the window.\<close>

definition close_action :: "slot \<Rightarrow> py_error + slot" where
  "close_action s =
     (if media (self s) = None then Inr s
      else case (if is_fullscreen (self s) then toggle_fullscreen_action s else Inr s) of
             Inl e \<Rightarrow> Inl e
           | Inr s1 \<Rightarrow> Inr (release_media (hide s1)))"

section \<open>ControlPanel and MainWindow\<close>

text \<open>Python's \<^verbatim>\<open>int()\<close> of a float drops the fraction, towards zero.\<close>

definition py_int :: "real \<Rightarrow> int" where
  "py_int x = (if 0 \<le> x then \<lfloor>x\<rfloor> else \<lceil>x\<rceil>)"

text \<open>
  \<^verbatim>\<open>ControlPanel.update_ui\<close>: update the status of controls. The position slider
  has the range 0 to 1000 and bounds the value it is set to. The tick is taken while the
  user does not hold the slider.
\<close>

definition update_ui :: "control_panel \<Rightarrow> control_panel" where
  "update_ui c =
     (let (pos, text) =
            (if media (player c) \<noteq> None then
               (py_int (np_position (vlc_player (player c)) * 1000),
                if np_playing (vlc_player (player c)) then ''Pause'' else ''Play'')
             else (0, ''Play''))
      in c\<lparr>position_slider := qBound 0 pos 1000, play_pause_button := text\<rparr>)"

text \<open>\<^verbatim>\<open>MainWindow.update_ui\<close>, called on every tick of the timer: every panel in
  turn.\<close>

definition main_update_ui :: "main_window \<Rightarrow> main_window" where
  "main_update_ui mw = mw\<lparr>controls := map update_ui (controls mw)\<rparr>"

section \<open>The full-screen bookkeeping\<close>

text \<open>The full-screen flag and the six fields that hold the windowed geometry.\<close>

definition fullscreen_state ::
  "player_window \<Rightarrow>
     bool \<times> int option \<times> int option \<times> int option \<times> int option \<times>
     window_flags option \<times> margins option" where
  "fullscreen_state p =
     (is_fullscreen p, wnd_x p, wnd_y p, wnd_w p, wnd_h p, wnd_flags p, ly_margins p)"

text \<open>
  The restoring branch of \<^verbatim>\<open>toggle_fullscreen_action\<close> raises nothing when the
  saved fields are set; a slot keeps them set while it is full screen.
\<close>

definition fullscreen_inv :: "player_window \<Rightarrow> bool" where
  "fullscreen_inv p =
     (is_fullscreen p \<longrightarrow>
        wnd_x p \<noteq> None \<and> wnd_y p \<noteq> None \<and> wnd_w p \<noteq> None \<and> wnd_h p \<noteq> None \<and>
        wnd_flags p \<noteq> None \<and> ly_margins p \<noteq> None)"

section \<open>The handle and the engine\<close>

text \<open>
  The source attaches a media to the player where it stores the handle and detaches it
  where it drops the handle, so the two are in step; and a player plays only what is
  attached to it.
\<close>

definition engine_in_step :: "player_window \<Rightarrow> bool" where
  "engine_in_step p =
     (np_media (vlc_player p) = media p \<and> (np_playing (vlc_player p) \<longrightarrow> media p \<noteq> None))"

text \<open>The handle of a slot is an object its instance has created.\<close>

definition handle_allocated :: "player_window \<Rightarrow> bool" where
  "handle_allocated p =
     (case media p of None \<Rightarrow> True | Some m \<Rightarrow> media_id m < created (vlc_instance p))"

section \<open>Construction\<close>

text \<open>
  \<^verbatim>\<open>MainWindow.create_ui\<close> builds \<^verbatim>\<open>MAX_DISPLAYS\<close> panels numbered from 1 and a
  timer of 100 ms that is not started. The geometry, the window flags and the layout margins
  a new widget has are the toolkit's choice: \<open>g\<close>, \<open>f\<close> and \<open>mg\<close>.
\<close>

definition MAX_DISPLAYS :: nat where
  "MAX_DISPLAYS = 4"

definition new_player_window :: "rect \<Rightarrow> window_flags \<Rightarrow> margins \<Rightarrow> player_window" where
  "new_player_window g f mg =
     \<lparr>pos_x = rx g, pos_y = ry g, width = rw g, height = rh g, windowFlags = f,
      isHidden = True, isFullScreen = False, windowTitle = [],
      media = None, volume = 100,
      wnd_x = None, wnd_y = None, wnd_w = None, wnd_h = None,
      wnd_flags = None, ly_margins = None, is_fullscreen = False,
      vlc_instance = \<lparr>created = 0\<rparr>,
      vlc_player = \<lparr>np_media = None, np_playing = False, np_volume = 100, np_position = 0\<rparr>,
      layout = mg\<rparr>"

definition new_control_panel ::
  "rect \<Rightarrow> window_flags \<Rightarrow> margins \<Rightarrow> int \<Rightarrow> control_panel" where
  "new_control_panel g f mg n =
     \<lparr>screen_num = n, player = new_player_window g f mg,
      play_pause_button = ''Play'', volume_slider = 100, position_slider = 0\<rparr>"

definition new_main_window :: "rect \<Rightarrow> window_flags \<Rightarrow> margins \<Rightarrow> main_window" where
  "new_main_window g f mg =
     \<lparr>controls = map (\<lambda>i. new_control_panel g f mg (int i + 1)) [0..<MAX_DISPLAYS],
      main_timer = \<lparr>interval = 100, active = False\<rparr>\<rparr>"

text \<open>The slot of the \<open>i\<close>-th panel, before any call.\<close>

definition slot_of :: "main_window \<Rightarrow> desktop \<Rightarrow> nat \<Rightarrow> slot" where
  "slot_of mw d i = \<lparr>panel = controls mw ! i, timer = main_timer mw, desktop = d, calls = []\<rparr>"

section \<open>A sample run\<close>

text \<open>
  Two displays, a new main window, the slot of its first panel, and the same slot after
  the user has opened a file.
\<close>

definition sample_desktop :: desktop where
  "sample_desktop =
     \<lparr>screenCount = 2,
      screenGeometry = (\<lambda>n. if n = 1 then \<lparr>rx = 1920, ry = 0, rw = 1280, rh = 1024\<rparr>
                             else \<lparr>rx = 0, ry = 0, rw = 1920, rh = 1080\<rparr>)\<rparr>"

definition sample_window :: main_window where
  "sample_window =
     new_main_window \<lparr>rx = 40, ry = 30, rw = 640, rh = 480\<rparr> Qt_Window
       \<lparr>m_left = 9, m_top = 9, m_right = 9, m_bottom = 9\<rparr>"

definition sample_slot :: slot where
  "sample_slot = slot_of sample_window sample_desktop 0"

definition sample_opened :: slot where
  "sample_opened = open_action ''/tmp/a.mp4'' (Some ''a.mp4'') sample_slot"

text \<open>The opened slot after the user has dragged the position slider to the middle.\<close>

definition sample_dragged :: slot where
  "sample_dragged = sample_opened\<lparr>panel := (panel sample_opened)\<lparr>position_slider := 500\<rparr>\<rparr>"

text \<open>The opened slot on a machine with one display: panel 1 has no display 1.\<close>

definition sample_single :: slot where
  "sample_single =
     sample_opened\<lparr>desktop :=
       \<lparr>screenCount = 1,
        screenGeometry = (\<lambda>n. if n = 0 then \<lparr>rx = 0, ry = 0, rw = 1366, rh = 768\<rparr>
                               else \<lparr>rx = 0, ry = 0, rw = 0, rh = 0\<rparr>)\<rparr>\<rparr>"

text \<open>The opened slot after the user has switched it to full screen.\<close>

definition sample_fullscreen :: slot where
  "sample_fullscreen =
     (case toggle_fullscreen_action sample_opened of Inr s \<Rightarrow> s | Inl e \<Rightarrow> sample_opened)"

text \<open>
  The panel of the opened slot while the engine plays, a little after the start; the same
  panel when the player has the media and no input yet, where \<^verbatim>\<open>get_position()\<close>
  is \<open>-1\<close>; and the main window with these two panels in the first two places. The
  other two panels have no media.
\<close>

definition sample_playing :: control_panel where
  "sample_playing =
     (panel sample_opened)\<lparr>player := (player (panel sample_opened))\<lparr>vlc_player :=
        \<lparr>np_media = Some (Media 0 ''/tmp/a.mp4''), np_playing = True, np_volume = 100,
         np_position = 1 / 1024\<rparr>\<rparr>\<rparr>"

definition sample_idle :: control_panel where
  "sample_idle =
     (panel sample_opened)\<lparr>player := (player (panel sample_opened))\<lparr>vlc_player :=
        \<lparr>np_media = Some (Media 0 ''/tmp/a.mp4''), np_playing = False, np_volume = 100,
         np_position = - 1\<rparr>\<rparr>\<rparr>"

definition sample_main :: main_window where
  "sample_main =
     sample_window\<lparr>controls := (controls sample_window)[0 := sample_playing, 1 := sample_idle],
                    main_timer := \<lparr>interval = 100, active = True\<rparr>\<rparr>"

text \<open>The new slot after \<^verbatim>\<open>set_volume_action(35)\<close>: the slider is still at 100.\<close>

definition sample_quiet :: slot where
  "sample_quiet = set_volume_action 35 sample_slot"

section \<open>What the toolkit and engine operations leave alone\<close>

lemma self_upd_self [simp]: "self (upd_self f s) = f (self s)"
  by (simp add: self_def upd_self_def)

lemma self_record_call [simp]: "self (record_call c s) = self s"
  by (simp add: self_def record_call_def)

lemma calls_upd_self [simp]: "calls (upd_self f s) = calls s"
  by (simp add: upd_self_def)

lemma calls_record_call [simp]: "calls (record_call c s) = calls s @ [c]"
  by (simp add: record_call_def)

lemma desktop_upd_self [simp]: "desktop (upd_self f s) = desktop s"
  by (simp add: upd_self_def)

lemma desktop_record_call [simp]: "desktop (record_call c s) = desktop s"
  by (simp add: record_call_def)

lemma timer_upd_self [simp]: "timer (upd_self f s) = timer s"
  by (simp add: upd_self_def)

lemma timer_record_call [simp]: "timer (record_call c s) = timer s"
  by (simp add: record_call_def)

lemma panel_record_call [simp]: "panel (record_call c s) = panel s"
  by (simp add: record_call_def)

lemma panel_upd_self [simp]:
  "screen_num (panel (upd_self f s)) = screen_num (panel s)"
  "play_pause_button (panel (upd_self f s)) = play_pause_button (panel s)"
  "volume_slider (panel (upd_self f s)) = volume_slider (panel s)"
  "position_slider (panel (upd_self f s)) = position_slider (panel s)"
  by (simp_all add: upd_self_def)

lemmas window_defs = hide_def show_widget_def showFullScreen_def showNormal_def
  setWindowFlags_def setContentsMargins_def move_def resize_def setWindowTitle_def

lemmas engine_defs = vlc_play_def vlc_pause_def vlc_stop_def vlc_set_media_def
  vlc_audio_set_volume_def vlc_set_position_def vlc_media_new_def media_parse_def upd_vlc_def

lemma is_fullscreen_hide [simp]: "is_fullscreen (self (hide s)) = is_fullscreen (self s)"
  by (simp add: hide_def)

lemma self_setText [simp]: "self (setText t s) = self s"
  by (simp add: setText_def self_def)

lemma timer_setText [simp]: "timer (setText t s) = timer s"
  by (simp add: setText_def)

lemma calls_setText [simp]: "calls (setText t s) = calls s"
  by (simp add: setText_def)

lemma desktop_setText [simp]: "desktop (setText t s) = desktop s"
  by (simp add: setText_def)

lemma play_pause_button_setText [simp]: "play_pause_button (panel (setText t s)) = t"
  by (simp add: setText_def)

lemma self_timer_start [simp]: "self (timer_start s) = self s"
  by (simp add: timer_start_def self_def record_call_def)

lemma self_timer_stop [simp]: "self (timer_stop s) = self s"
  by (simp add: timer_stop_def self_def record_call_def)

lemma panel_timer_start [simp]: "panel (timer_start s) = panel s"
  by (simp add: timer_start_def)

lemma panel_timer_stop [simp]: "panel (timer_stop s) = panel s"
  by (simp add: timer_stop_def)

lemma calls_timer_start [simp]: "calls (timer_start s) = calls s @ [TimerStart]"
  by (simp add: timer_start_def)

lemma calls_timer_stop [simp]: "calls (timer_stop s) = calls s @ [TimerStop]"
  by (simp add: timer_stop_def)

lemma active_timer_start [simp]: "active (timer (timer_start s))"
  by (simp add: timer_start_def)

subsection \<open>The branches of the full-screen toggle, as the calls they make\<close>

lemma toggle_enter:
  assumes "media (self s) = Some m" "\<not> is_fullscreen (self s)"
  shows "toggle_fullscreen_action s =
    Inr (upd_self (\<lambda>p. p\<lparr>is_fullscreen := True\<rparr>)
      (showFullScreen
        (resize (rw (screenGeometry (desktop s)
                   (if screen_num (panel s) < screenCount (desktop s)
                    then screen_num (panel s) else 0)))
                (rh (screenGeometry (desktop s)
                   (if screen_num (panel s) < screenCount (desktop s)
                    then screen_num (panel s) else 0)))
          (move (rx (screenGeometry (desktop s)
                   (if screen_num (panel s) < screenCount (desktop s)
                    then screen_num (panel s) else 0)))
                (ry (screenGeometry (desktop s)
                   (if screen_num (panel s) < screenCount (desktop s)
                    then screen_num (panel s) else 0)))
            (setContentsMargins 0 0 0 0
              (setWindowFlags (Qt_Window OR Qt_FramelessWindowHint)
                (upd_self (\<lambda>p. p\<lparr>ly_margins := Some (layout p)\<rparr>)
                (upd_self (\<lambda>p. p\<lparr>wnd_flags := Some (windowFlags p)\<rparr>)
                (upd_self (\<lambda>p. p\<lparr>wnd_h := Some (height p)\<rparr>)
                (upd_self (\<lambda>p. p\<lparr>wnd_w := Some (width p)\<rparr>)
                (upd_self (\<lambda>p. p\<lparr>wnd_y := Some (pos_y p)\<rparr>)
                (upd_self (\<lambda>p. p\<lparr>wnd_x := Some (pos_x p)\<rparr>)
                  (hide s)))))))))))))"
  using assms
  by (simp add: toggle_fullscreen_action_def Let_def hide_def)

lemma toggle_leave:
  assumes "media (self s) = Some m" "is_fullscreen (self s)"
    and "wnd_flags (self s) = Some f" "ly_margins (self s) = Some mg"
    and "wnd_x (self s) = Some x" "wnd_y (self s) = Some y"
    and "wnd_w (self s) = Some w" "wnd_h (self s) = Some h"
  shows "toggle_fullscreen_action s =
    Inr (upd_self (\<lambda>p. p\<lparr>is_fullscreen := False\<rparr>)
      (showNormal (resize w h (move x y
        (setContentsMargins (m_left mg) (m_top mg) (m_right mg) (m_bottom mg)
          (setWindowFlags f (hide s)))))))"
  using assms
  by (simp add: toggle_fullscreen_action_def Let_def hide_def setWindowFlags_def
        setContentsMargins_def move_def)

subsection \<open>Releasing, closing, opening\<close>

lemma self_store_volume_slider [simp]: "self (store_volume_slider v s) = self s"
  by (simp add: store_volume_slider_def self_def)

lemma calls_store_volume_slider [simp]: "calls (store_volume_slider v s) = calls s"
  by (simp add: store_volume_slider_def)

lemma timer_store_volume_slider [simp]: "timer (store_volume_slider v s) = timer s"
  by (simp add: store_volume_slider_def)

lemma volume_slider_store_volume_slider [simp]:
  "volume_slider (panel (store_volume_slider v s)) = v"
  by (simp add: store_volume_slider_def)

lemma self_set_volume_action:
  "self (set_volume_action v s) =
     (if media (self s) = None then (self s)\<lparr>volume := v\<rparr>
      else (self s)\<lparr>volume := v, vlc_player := (vlc_player (self s))\<lparr>np_volume := v\<rparr>\<rparr>)"
  by (simp add: set_volume_action_def Let_def vlc_audio_set_volume_def upd_vlc_def)

lemma calls_set_volume_action:
  "calls (set_volume_action v s) =
     calls s @ (if media (self s) = None then [] else [AudioSetVolume v])"
  by (simp add: set_volume_action_def Let_def vlc_audio_set_volume_def upd_vlc_def)

lemma self_volume_slider_setValue:
  "self (volume_slider_setValue v s) =
     (if qBound 0 v 100 = volume_slider (panel s) then self s
      else self (set_volume_action (qBound 0 v 100) s))"
  by (simp add: volume_slider_setValue_def Let_def self_set_volume_action)

lemma calls_volume_slider_setValue:
  "calls (volume_slider_setValue v s) =
     (if qBound 0 v 100 = volume_slider (panel s) then calls s
      else calls (set_volume_action (qBound 0 v 100) s))"
  by (simp add: volume_slider_setValue_def Let_def calls_set_volume_action)

lemma calls_release_media:
  "calls (release_media s) = calls s @ (if media (self s) = None then [] else [Stop, SetMedia None])"
  by (auto simp add: release_media_def stop_action_def Let_def engine_defs)

lemma self_release_media:
  "self (release_media s) =
     (if media (self s) = None then self s
      else (self s)\<lparr>media := None,
                    vlc_player := (vlc_player (self s))\<lparr>np_playing := False, np_media := None\<rparr>\<rparr>)"
  by (auto simp add: release_media_def stop_action_def Let_def engine_defs)

lemma close_windowed:
  assumes "media (self s) = Some m" "\<not> is_fullscreen (self s)"
  shows "close_action s = Inr (release_media (hide s))"
  using assms by (simp add: close_action_def)

lemma close_fullscreen:
  assumes "media (self s) = Some m" "is_fullscreen (self s)"
    and "toggle_fullscreen_action s = Inr s1"
  shows "close_action s = Inr (release_media (hide s1))"
  using assms by (simp add: close_action_def)

lemma fullscreen_state_release_media:
  "fullscreen_state (self (release_media s)) = fullscreen_state (self s)"
  by (simp add: self_release_media fullscreen_state_def)

subsection \<open>The sample run, evaluated\<close>

lemma sample_slot_eq:
  "sample_slot =
     \<lparr>panel = new_control_panel \<lparr>rx = 40, ry = 30, rw = 640, rh = 480\<rparr> Qt_Window
                \<lparr>m_left = 9, m_top = 9, m_right = 9, m_bottom = 9\<rparr> 1,
      timer = \<lparr>interval = 100, active = False\<rparr>, desktop = sample_desktop, calls = []\<rparr>"
  by (simp add: sample_slot_def sample_window_def slot_of_def new_main_window_def
        MAX_DISPLAYS_def upt_conv_Cons)

lemma sample_opened_eq:
  "sample_opened =
     upd_self (\<lambda>p. p\<lparr>isHidden := False, windowTitle := ''a.mp4'',
                 media := Some (Media 0 ''/tmp/a.mp4''),
                 vlc_instance := \<lparr>created = 1\<rparr>,
                 vlc_player := \<lparr>np_media = Some (Media 0 ''/tmp/a.mp4''), np_playing = False,
                                np_volume = 100, np_position = 0\<rparr>\<rparr>)
       (sample_slot\<lparr>calls := [MediaNew ''/tmp/a.mp4'', SetMedia (Some (Media 0 ''/tmp/a.mp4'')),
                               Parse (Media 0 ''/tmp/a.mp4''), Show]\<rparr>)"
  by (simp add: sample_opened_def open_action_def release_media_def sample_slot_eq
        new_control_panel_def new_player_window_def engine_defs window_defs
        volume_slider_setValue_def qBound_def upd_self_def self_def record_call_def Let_def)

lemma sample_opened_self:
  "self sample_opened =
     (new_player_window \<lparr>rx = 40, ry = 30, rw = 640, rh = 480\<rparr> Qt_Window
                \<lparr>m_left = 9, m_top = 9, m_right = 9, m_bottom = 9\<rparr>)
     \<lparr>isHidden := False, windowTitle := ''a.mp4'',
                 media := Some (Media 0 ''/tmp/a.mp4''),
                 vlc_instance := \<lparr>created = 1\<rparr>,
                 vlc_player := \<lparr>np_media = Some (Media 0 ''/tmp/a.mp4''), np_playing = False,
                                np_volume = 100, np_position = 0\<rparr>\<rparr>"
  "desktop sample_opened = sample_desktop"
  "screen_num (panel sample_opened) = 1"
  by (simp_all add: sample_opened_eq sample_slot_eq new_control_panel_def self_def upd_self_def)

lemma sample_slot_self:
  "self sample_slot = new_player_window \<lparr>rx = 40, ry = 30, rw = 640, rh = 480\<rparr> Qt_Window
                \<lparr>m_left = 9, m_top = 9, m_right = 9, m_bottom = 9\<rparr>"
  "play_pause_button (panel sample_slot) = ''Play''"
  "timer sample_slot = \<lparr>interval = 100, active = False\<rparr>"
  by (simp_all add: sample_slot_eq new_control_panel_def self_def)

lemma sample_fullscreen_eq:
  "sample_fullscreen =
     upd_self (\<lambda>p. p\<lparr>pos_x := 1920, pos_y := 0, width := 1280, height := 1024,
                 windowFlags := 0x801, isHidden := False, isFullScreen := True,
                 wnd_x := Some 40, wnd_y := Some 30, wnd_w := Some 640, wnd_h := Some 480,
                 wnd_flags := Some 1,
                 ly_margins := Some \<lparr>m_left = 9, m_top = 9, m_right = 9, m_bottom = 9\<rparr>,
                 is_fullscreen := True,
                 layout := \<lparr>m_left = 0, m_top = 0, m_right = 0, m_bottom = 0\<rparr>\<rparr>)
       (sample_opened\<lparr>calls := calls sample_opened @ [Hide, ShowFullScreen]\<rparr>)"
proof -
  have m: "media (self sample_opened) = Some (Media 0 ''/tmp/a.mp4'')"
    by (simp add: sample_opened_self)
  have f: "\<not> is_fullscreen (self sample_opened)"
    by (simp add: sample_opened_self new_player_window_def)
  show ?thesis
    unfolding sample_fullscreen_def toggle_enter [OF m f]
    by (simp add: sample_opened_self(2,3) sample_desktop_def window_defs
          Qt_Window_def Qt_FramelessWindowHint_def)
      (simp add: upd_self_def record_call_def sample_opened_self(1) [unfolded self_def]
         new_player_window_def Qt_Window_def)
qed

lemma sample_fullscreen_self:
  "media (self sample_fullscreen) = Some (Media 0 ''/tmp/a.mp4'')"
  "is_fullscreen (self sample_fullscreen)"
  "wnd_flags (self sample_fullscreen) = Some 1"
  "ly_margins (self sample_fullscreen) = Some \<lparr>m_left = 9, m_top = 9, m_right = 9, m_bottom = 9\<rparr>"
  "wnd_x (self sample_fullscreen) = Some 40" "wnd_y (self sample_fullscreen) = Some 30"
  "wnd_w (self sample_fullscreen) = Some 640" "wnd_h (self sample_fullscreen) = Some 480"
  by (simp_all add: sample_fullscreen_eq self_def upd_self_def
        sample_opened_self(1) [unfolded self_def])

subsection \<open>The saved geometry is set whenever it is read\<close>

text \<open>
  A new window satisfies \<open>fullscreen_inv\<close> and every operation keeps it; under it
  \<^verbatim>\<open>toggle_fullscreen_action\<close> and \<^verbatim>\<open>close_action\<close> always return.
\<close>

lemma fullscreen_inv_state:
  "fullscreen_state p = fullscreen_state q \<Longrightarrow> fullscreen_inv p = fullscreen_inv q"
  by (simp add: fullscreen_state_def fullscreen_inv_def)

lemma fullscreen_inv_new: "fullscreen_inv (new_player_window g f mg)"
  by (simp add: fullscreen_inv_def new_player_window_def)

lemma toggle_returns:
  assumes "fullscreen_inv (self s)"
  shows "\<exists>s'. toggle_fullscreen_action s = Inr s' \<and> fullscreen_inv (self s')"
proof (cases "media (self s)")
  case None
  then show ?thesis using assms by (simp add: toggle_fullscreen_action_def)
next
  case (Some m)
  show ?thesis
  proof (cases "is_fullscreen (self s)")
    case False
    show ?thesis
      unfolding toggle_enter [OF Some False]
      by (simp add: window_defs fullscreen_inv_def)
  next
    case True
    with assms obtain x y w h f mg where
      "wnd_flags (self s) = Some f" "ly_margins (self s) = Some mg"
      "wnd_x (self s) = Some x" "wnd_y (self s) = Some y"
      "wnd_w (self s) = Some w" "wnd_h (self s) = Some h"
      by (auto simp add: fullscreen_inv_def)
    from toggle_leave [OF Some True this] show ?thesis
      by (simp add: window_defs fullscreen_inv_def)
  qed
qed

lemma fullscreen_inv_hide [simp]: "fullscreen_inv (self (hide s)) = fullscreen_inv (self s)"
  by (simp add: hide_def fullscreen_inv_def)

lemma fullscreen_inv_release_media [simp]:
  "fullscreen_inv (self (release_media s)) = fullscreen_inv (self s)"
  by (rule fullscreen_inv_state) (rule fullscreen_state_release_media)

lemma close_returns:
  assumes "fullscreen_inv (self s)"
  shows "\<exists>s'. close_action s = Inr s' \<and> fullscreen_inv (self s')"
proof -
  from toggle_returns [OF assms] obtain s1 where
    "toggle_fullscreen_action s = Inr s1" "fullscreen_inv (self s1)" by blast
  then show ?thesis using assms by (simp add: close_action_def)
qed

lemma others_keep_fullscreen_inv:
  assumes "fullscreen_inv (self s)"
  shows "fullscreen_inv (self (play_pause_action rc s))"
    and "fullscreen_inv (self (stop_action s))"
    and "fullscreen_inv (self (set_volume_action v s))"
    and "fullscreen_inv (self (set_position_action s))"
    and "fullscreen_inv (self (open_action filename title s))"
  using assms
  by (auto simp add: play_pause_action_def stop_action_def set_volume_action_def
        set_position_action_def open_action_def Let_def engine_defs window_defs
        self_release_media self_volume_slider_setValue self_set_volume_action
        fullscreen_inv_def split: option.splits if_splits)

subsection \<open>More of the sample run, evaluated\<close>

lemma release_media_twice: "release_media (release_media s) = release_media s"
proof -
  have "media (self (release_media s)) = None"
    by (simp add: self_release_media)
  then show ?thesis
    by (simp add: release_media_def [of "release_media s"])
qed

lemma volume_slider_release_media:
  "volume_slider (panel (release_media s)) = volume_slider (panel s)"
  by (simp add: release_media_def stop_action_def Let_def engine_defs setText_def
        upd_self_def record_call_def)

lemma sample_quiet_eq: "sample_quiet = upd_self (\<lambda>p. p\<lparr>volume := 35\<rparr>) sample_slot"
  by (simp add: sample_quiet_def set_volume_action_def Let_def sample_slot_self
        new_player_window_def)

lemma sample_quiet_self:
  "media (self sample_quiet) = None" "volume (self sample_quiet) = 35"
  "created (vlc_instance (self sample_quiet)) = 0"
  by (simp_all add: sample_quiet_eq sample_slot_self new_player_window_def)

lemma sample_quiet_panel:
  "volume_slider (panel sample_quiet) = 100" "calls sample_quiet = []"
  by (simp_all add: sample_quiet_eq sample_slot_eq new_control_panel_def)

lemma sample_main_controls:
  "controls sample_main ! 0 = sample_playing" "controls sample_main ! Suc 0 = sample_idle"
  "length (controls sample_main) = 4"
  "media (player (controls sample_main ! 2)) = None"
  by (simp_all add: sample_main_def sample_window_def new_main_window_def MAX_DISPLAYS_def
        upt_conv_Cons new_control_panel_def new_player_window_def)

lemma sample_playing_player:
  "media (player sample_playing) = Some (Media 0 ''/tmp/a.mp4'')"
  "np_position (vlc_player (player sample_playing)) = 1 / 1024"
  "np_playing (vlc_player (player sample_playing))"
  using sample_opened_self(1) by (simp_all add: sample_playing_def self_def)

lemma sample_idle_player:
  "media (player sample_idle) = Some (Media 0 ''/tmp/a.mp4'')"
  "np_position (vlc_player (player sample_idle)) = - 1"
  "\<not> np_playing (vlc_player (player sample_idle))"
  using sample_opened_self(1) by (simp_all add: sample_idle_def self_def)

subsection \<open>The handle and the engine stay in step\<close>

lemma engine_in_step_new: "engine_in_step (new_player_window g f mg)"
  by (simp add: engine_in_step_def new_player_window_def)

lemma engine_in_step_release_media:
  "engine_in_step (self s) \<Longrightarrow> engine_in_step (self (release_media s))"
  by (auto simp add: self_release_media engine_in_step_def)

lemma engine_in_step_hide [simp]: "engine_in_step (self (hide s)) = engine_in_step (self s)"
  by (simp add: hide_def engine_in_step_def)

lemma engine_in_step_kept:
  assumes "engine_in_step (self s)"
  shows "engine_in_step (self (play_pause_action rc s))"
    and "engine_in_step (self (stop_action s))"
    and "engine_in_step (self (set_volume_action v s))"
    and "engine_in_step (self (set_position_action s))"
    and "engine_in_step (self (open_action filename title s))"
  using assms
  by (auto simp add: play_pause_action_def stop_action_def self_set_volume_action
        set_position_action_def open_action_def Let_def engine_defs window_defs
        self_release_media self_volume_slider_setValue engine_in_step_def
        split: option.splits if_splits)

lemma engine_in_step_toggle:
  assumes "engine_in_step (self s)" and "toggle_fullscreen_action s = Inr s'"
  shows "engine_in_step (self s')"
  using assms
  by (auto simp add: toggle_fullscreen_action_def Let_def window_defs engine_in_step_def
        split: option.splits if_splits)

lemma engine_in_step_close:
  assumes "engine_in_step (self s)" and "close_action s = Inr s'"
  shows "engine_in_step (self s')"
proof (cases "media (self s) = None")
  case True
  with assms show ?thesis by (simp add: close_action_def)
next
  case False
  show ?thesis
  proof (cases "is_fullscreen (self s)")
    case True
    with False assms(2) obtain s1 where t: "toggle_fullscreen_action s = Inr s1"
      and r: "s' = release_media (hide s1)"
      by (auto simp add: close_action_def split: sum.splits)
    from engine_in_step_toggle [OF assms(1) t] show ?thesis
      by (simp add: r engine_in_step_release_media)
  next
    case fs: False
    with False assms(2) have "s' = release_media (hide s)"
      by (auto simp add: close_action_def)
    with assms(1) show ?thesis by (simp add: engine_in_step_release_media)
  qed
qed

subsection \<open>The handle is an object the instance created\<close>

lemma handle_allocated_new: "handle_allocated (new_player_window g f mg)"
  by (simp add: handle_allocated_def new_player_window_def)

lemma handle_allocated_kept:
  assumes "handle_allocated (self s)"
  shows "handle_allocated (self (play_pause_action rc s))"
    and "handle_allocated (self (stop_action s))"
    and "handle_allocated (self (set_volume_action v s))"
    and "handle_allocated (self (set_position_action s))"
    and "handle_allocated (self (release_media s))"
    and "handle_allocated (self (open_action filename title s))"
  using assms
  by (auto simp add: play_pause_action_def stop_action_def self_set_volume_action
        set_position_action_def open_action_def Let_def engine_defs window_defs
        self_release_media self_volume_slider_setValue handle_allocated_def
        split: option.splits if_splits)

lemma handle_allocated_toggle:
  assumes "handle_allocated (self s)" and "toggle_fullscreen_action s = Inr s'"
  shows "handle_allocated (self s')"
  using assms
  by (auto simp add: toggle_fullscreen_action_def Let_def window_defs handle_allocated_def
        split: option.splits if_splits)

lemma handle_allocated_close:
  assumes "close_action s = Inr s'" and "handle_allocated (self s)"
  shows "handle_allocated (self s')"
  using assms
  by (auto simp add: close_action_def self_release_media hide_def handle_allocated_def
        split: option.splits if_splits sum.splits)

section \<open>The full-screen transitions\<close>

text \<open>
  Claim C1. For a slot that has a media handle and is windowed, two calls of
  \<^verbatim>\<open>toggle_fullscreen_action\<close> in succession both return; the first leaves the slot
  full screen, the second leaves it windowed with the position, the size, the window flags
  and the layout margins the window had before the first call.
\<close>

theorem toggle_fullscreen_twice:
  assumes "media (self s) \<noteq> None" and "\<not> is_fullscreen (self s)"
  shows "\<exists>s1 s2. toggle_fullscreen_action s = Inr s1 \<and> is_fullscreen (self s1) \<and>
     toggle_fullscreen_action s1 = Inr s2 \<and> \<not> is_fullscreen (self s2) \<and>
     pos_x (self s2) = pos_x (self s) \<and> pos_y (self s2) = pos_y (self s) \<and>
     width (self s2) = width (self s) \<and> height (self s2) = height (self s) \<and>
     windowFlags (self s2) = windowFlags (self s) \<and> layout (self s2) = layout (self s)"
proof -
  from assms(1) obtain m where m: "media (self s) = Some m" by blast
  obtain s1 where r1: "toggle_fullscreen_action s = Inr s1"
    and a: "media (self s1) = Some m" "is_fullscreen (self s1)"
    "wnd_flags (self s1) = Some (windowFlags (self s))"
    "ly_margins (self s1) = Some (layout (self s))"
    "wnd_x (self s1) = Some (pos_x (self s))" "wnd_y (self s1) = Some (pos_y (self s))"
    "wnd_w (self s1) = Some (width (self s))" "wnd_h (self s1) = Some (height (self s))"
    using m unfolding toggle_enter [OF m assms(2)] by (simp add: window_defs)
  have "\<exists>s2. toggle_fullscreen_action s1 = Inr s2 \<and> \<not> is_fullscreen (self s2) \<and>
     pos_x (self s2) = pos_x (self s) \<and> pos_y (self s2) = pos_y (self s) \<and>
     width (self s2) = width (self s) \<and> height (self s2) = height (self s) \<and>
     windowFlags (self s2) = windowFlags (self s) \<and> layout (self s2) = layout (self s)"
    unfolding toggle_leave [OF a] by (simp add: window_defs)
  with r1 a(2) show ?thesis by blast
qed

theorem toggle_fullscreen_twice_witness:
  "media (self sample_opened) \<noteq> None \<and> \<not> is_fullscreen (self sample_opened) \<and>
   (\<exists>s1 s2. toggle_fullscreen_action sample_opened = Inr s1 \<and> is_fullscreen (self s1) \<and>
      toggle_fullscreen_action s1 = Inr s2 \<and> \<not> is_fullscreen (self s2) \<and>
      pos_x (self s2) = 40 \<and> pos_y (self s2) = 30 \<and>
      width (self s2) = 640 \<and> height (self s2) = 480 \<and>
      windowFlags (self s2) = 1 \<and>
      layout (self s2) = \<lparr>m_left = 9, m_top = 9, m_right = 9, m_bottom = 9\<rparr>)"
proof -
  have h1: "media (self sample_opened) \<noteq> None"
    by (simp add: sample_opened_self)
  have h2: "\<not> is_fullscreen (self sample_opened)"
    by (simp add: sample_opened_self new_player_window_def)
  show ?thesis
    using h1 h2 toggle_fullscreen_twice [OF h1 h2]
    by (simp add: sample_opened_self new_player_window_def Qt_Window_def)
qed

text \<open>
  Claim C2. For a slot that has a media handle and is windowed,
  \<^verbatim>\<open>toggle_fullscreen_action\<close> returns a slot in which the saved fields hold the
  position, size, window flags and layout margins the window had before the call; the
  window has the position and size of the display numbered \<^verbatim>\<open>screen_num\<close> when
  that number is below the number of displays and of display 0 otherwise; the window flags
  are \<^verbatim>\<open>Qt.Window | Qt.FramelessWindowHint\<close>; the layout margins are zero; the
  window was hidden and then shown full screen; and the slot is marked full screen.
\<close>

theorem toggle_fullscreen_enters:
  assumes "media (self s) \<noteq> None" and "\<not> is_fullscreen (self s)"
  shows "\<exists>s'. toggle_fullscreen_action s = Inr s' \<and>
     wnd_x (self s') = Some (pos_x (self s)) \<and> wnd_y (self s') = Some (pos_y (self s)) \<and>
     wnd_w (self s') = Some (width (self s)) \<and> wnd_h (self s') = Some (height (self s)) \<and>
     wnd_flags (self s') = Some (windowFlags (self s)) \<and>
     ly_margins (self s') = Some (layout (self s)) \<and>
     (let r = screenGeometry (desktop s)
                (if screen_num (panel s) < screenCount (desktop s) then screen_num (panel s) else 0)
      in pos_x (self s') = rx r \<and> pos_y (self s') = ry r \<and>
         width (self s') = rw r \<and> height (self s') = rh r) \<and>
     windowFlags (self s') = Qt_Window OR Qt_FramelessWindowHint \<and>
     layout (self s') = \<lparr>m_left = 0, m_top = 0, m_right = 0, m_bottom = 0\<rparr> \<and>
     \<not> isHidden (self s') \<and> isFullScreen (self s') \<and> is_fullscreen (self s') \<and>
     calls s' = calls s @ [Hide, ShowFullScreen]"
proof -
  from assms(1) obtain m where m: "media (self s) = Some m" by blast
  note r = toggle_enter [OF m assms(2)]
  show ?thesis
    unfolding r by (simp add: window_defs Let_def)
qed

theorem toggle_fullscreen_enters_witness:
  "media (self sample_opened) \<noteq> None \<and> \<not> is_fullscreen (self sample_opened) \<and>
   (\<exists>s'. toggle_fullscreen_action sample_opened = Inr s' \<and>
      wnd_x (self s') = Some 40 \<and> wnd_y (self s') = Some 30 \<and>
      wnd_w (self s') = Some 640 \<and> wnd_h (self s') = Some 480 \<and>
      wnd_flags (self s') = Some 1 \<and>
      pos_x (self s') = 1920 \<and> pos_y (self s') = 0 \<and>
      width (self s') = 1280 \<and> height (self s') = 1024 \<and>
      windowFlags (self s') = 0x801 \<and> is_fullscreen (self s')) \<and>
   media (self sample_single) \<noteq> None \<and> \<not> is_fullscreen (self sample_single) \<and>
   (\<exists>s'. toggle_fullscreen_action sample_single = Inr s' \<and>
      pos_x (self s') = 0 \<and> pos_y (self s') = 0 \<and>
      width (self s') = 1366 \<and> height (self s') = 768 \<and>
      windowFlags (self s') = 0x801 \<and> is_fullscreen (self s'))"
proof -
  have h1: "media (self sample_opened) \<noteq> None"
    by (simp add: sample_opened_self)
  have h2: "\<not> is_fullscreen (self sample_opened)"
    by (simp add: sample_opened_self new_player_window_def)
  have e: "self sample_single = self sample_opened"
    "screen_num (panel sample_single) = 1" "screenCount (desktop sample_single) = 1"
    "screenGeometry (desktop sample_single) 0 = \<lparr>rx = 0, ry = 0, rw = 1366, rh = 768\<rparr>"
    by (simp_all add: sample_single_def self_def sample_opened_self(3))
  have k1: "media (self sample_single) \<noteq> None" and k2: "\<not> is_fullscreen (self sample_single)"
    using h1 h2 by (simp_all add: e)
  have a: "\<exists>s'. toggle_fullscreen_action sample_opened = Inr s' \<and>
      wnd_x (self s') = Some 40 \<and> wnd_y (self s') = Some 30 \<and>
      wnd_w (self s') = Some 640 \<and> wnd_h (self s') = Some 480 \<and>
      wnd_flags (self s') = Some 1 \<and>
      pos_x (self s') = 1920 \<and> pos_y (self s') = 0 \<and>
      width (self s') = 1280 \<and> height (self s') = 1024 \<and>
      windowFlags (self s') = 0x801 \<and> is_fullscreen (self s')"
    using toggle_fullscreen_enters [OF h1 h2]
    by (simp add: sample_opened_self new_player_window_def sample_desktop_def
          Qt_Window_def Qt_FramelessWindowHint_def) blast
  have b: "\<exists>s'. toggle_fullscreen_action sample_single = Inr s' \<and>
      pos_x (self s') = 0 \<and> pos_y (self s') = 0 \<and>
      width (self s') = 1366 \<and> height (self s') = 768 \<and>
      windowFlags (self s') = 0x801 \<and> is_fullscreen (self s')"
    using toggle_fullscreen_enters [OF k1 k2]
    by (simp add: e(2,3,4) Qt_Window_def Qt_FramelessWindowHint_def) blast
  show ?thesis
    using h1 h2 k1 k2 a b by blast
qed

section \<open>Play and pause\<close>

text \<open>
  Claim C3. When the native player reports that it is not playing and
  \<^verbatim>\<open>play()\<close> answers \<open>-1\<close>, \<^verbatim>\<open>play_pause_action\<close> returns the slot it
  was given, with the play request as the only call made: the panel (and so the label of the
  button) is unchanged, the window is hidden exactly if it was, and the timer is as it was
  (no \<^verbatim>\<open>start()\<close> is issued).
\<close>

theorem play_pause_play_failed:
  assumes "\<not> np_playing (vlc_player (self s))"
  shows "play_pause_action (- 1) s = record_call Play s \<and>
     panel (play_pause_action (- 1) s) = panel s \<and>
     play_pause_button (panel (play_pause_action (- 1) s)) = play_pause_button (panel s) \<and>
     isHidden (self (play_pause_action (- 1) s)) = isHidden (self s) \<and>
     timer (play_pause_action (- 1) s) = timer s \<and>
     calls (play_pause_action (- 1) s) = calls s @ [Play]"
proof -
  have "play_pause_action (- 1) s = record_call Play s"
    using assms by (simp add: play_pause_action_def vlc_play_def)
  then show ?thesis by simp
qed

theorem play_pause_play_failed_witness:
  "\<not> np_playing (vlc_player (self sample_opened)) \<and>
   play_pause_button (panel (play_pause_action (- 1) sample_opened)) = ''Play'' \<and>
   \<not> isHidden (self (play_pause_action (- 1) sample_opened)) \<and>
   \<not> active (timer (play_pause_action (- 1) sample_opened))"
proof -
  have h: "\<not> np_playing (vlc_player (self sample_opened))"
    by (simp add: sample_opened_self)
  show ?thesis
    using h play_pause_play_failed [OF h]
    by (simp add: sample_opened_self sample_opened_eq sample_slot_eq new_control_panel_def)
qed

text \<open>
  Claim C9. On a slot without a media handle \<^verbatim>\<open>play_pause_action\<close> changes nothing,
  whatever the engine would make of a file: the player has no media attached (the source
  attaches and detaches the media where it sets and clears the handle) and is not playing,
  so \<^verbatim>\<open>play()\<close> answers \<open>-1\<close> and the method returns. The panel, and so the label,
  is unchanged, the window is hidden exactly if it was, the timer is as it was, and the
  refused play request is the only call made.
\<close>

theorem play_pause_without_media:
  assumes "media (self s) = None" and "engine_in_step (self s)"
  shows "play_pause_action rc s = record_call Play s \<and>
     panel (play_pause_action rc s) = panel s \<and>
     play_pause_button (panel (play_pause_action rc s)) = play_pause_button (panel s) \<and>
     isHidden (self (play_pause_action rc s)) = isHidden (self s) \<and>
     timer (play_pause_action rc s) = timer s \<and>
     calls (play_pause_action rc s) = calls s @ [Play]"
proof -
  from assms have "np_media (vlc_player (self s)) = None" "\<not> np_playing (vlc_player (self s))"
    by (auto simp add: engine_in_step_def)
  then have "play_pause_action rc s = record_call Play s"
    by (simp add: play_pause_action_def vlc_play_def)
  then show ?thesis by simp
qed

theorem play_pause_without_media_witness:
  "media (self sample_slot) = None \<and> engine_in_step (self sample_slot) \<and>
   play_pause_action 0 sample_slot = record_call Play sample_slot \<and>
   play_pause_button (panel (play_pause_action 0 sample_slot)) = ''Play'' \<and>
   isHidden (self (play_pause_action 0 sample_slot)) \<and>
   \<not> active (timer (play_pause_action 0 sample_slot)) \<and>
   calls (play_pause_action 0 sample_slot) = [Play]"
proof -
  have h1: "media (self sample_slot) = None"
    by (simp add: sample_slot_self new_player_window_def)
  have h2: "engine_in_step (self sample_slot)"
    by (simp add: sample_slot_self engine_in_step_new)
  have a: "play_pause_button (panel sample_slot) = ''Play''" "isHidden (self sample_slot)"
    "\<not> active (timer sample_slot)"
    by (simp_all add: sample_slot_self new_player_window_def)
  have b: "calls sample_slot = []"
    by (simp add: sample_slot_eq)
  show ?thesis
    using h1 h2 play_pause_without_media [OF h1 h2, of 0] a b by simp
qed

section \<open>Volume and position\<close>

text \<open>
  Claim C6. For a volume \<open>v\<close> from 0 to 100, \<^verbatim>\<open>set_volume_action\<close> always stores
  \<open>v\<close> in \<^verbatim>\<open>_volume\<close>. Without a media handle that is all it does: the native
  player is untouched and no call is made. With a media handle it passes \<open>v\<close> to
  \<^verbatim>\<open>audio_set_volume\<close>, the only call it makes, and the native volume is \<open>v\<close>.
\<close>

theorem set_volume_action_caches_and_applies:
  assumes "0 \<le> v" and "v \<le> 100"
  shows "volume (self (set_volume_action v s)) = v \<and>
     (media (self s) = None \<longrightarrow>
        set_volume_action v s = upd_self (\<lambda>p. p\<lparr>volume := v\<rparr>) s \<and>
        vlc_player (self (set_volume_action v s)) = vlc_player (self s) \<and>
        calls (set_volume_action v s) = calls s) \<and>
     (media (self s) \<noteq> None \<longrightarrow>
        np_volume (vlc_player (self (set_volume_action v s))) = v \<and>
        calls (set_volume_action v s) = calls s @ [AudioSetVolume v])"
  by (auto simp add: set_volume_action_def vlc_audio_set_volume_def upd_vlc_def Let_def)

theorem set_volume_action_caches_and_applies_witness:
  "(0::int) \<le> 35 \<and> (35::int) \<le> 100 \<and>
   volume (self (set_volume_action 35 sample_slot)) = 35 \<and>
   np_volume (vlc_player (self (set_volume_action 35 sample_slot))) = 100 \<and>
   calls (set_volume_action 35 sample_slot) = [] \<and>
   volume (self (set_volume_action 35 sample_opened)) = 35 \<and>
   np_volume (vlc_player (self (set_volume_action 35 sample_opened))) = 35 \<and>
   calls (set_volume_action 35 sample_opened) = calls sample_opened @ [AudioSetVolume 35]"
proof -
  have h1: "(0::int) \<le> 35" and h2: "(35::int) \<le> 100" by simp_all
  have m1: "media (self sample_slot) = None"
    by (simp add: sample_slot_self new_player_window_def)
  have m2: "media (self sample_opened) \<noteq> None"
    by (simp add: sample_opened_self)
  have a: "volume (self (set_volume_action 35 sample_slot)) = 35 \<and>
     vlc_player (self (set_volume_action 35 sample_slot)) = vlc_player (self sample_slot) \<and>
     calls (set_volume_action 35 sample_slot) = calls sample_slot"
    using set_volume_action_caches_and_applies [OF h1 h2, of sample_slot] m1 by simp
  have b: "volume (self (set_volume_action 35 sample_opened)) = 35 \<and>
     np_volume (vlc_player (self (set_volume_action 35 sample_opened))) = 35 \<and>
     calls (set_volume_action 35 sample_opened) = calls sample_opened @ [AudioSetVolume 35]"
    using set_volume_action_caches_and_applies [OF h1 h2, of sample_opened] m2 by simp
  have c: "np_volume (vlc_player (self sample_slot)) = 100"
    by (simp add: sample_slot_self new_player_window_def)
  have d: "calls sample_slot = []"
    by (simp add: sample_slot_eq)
  show ?thesis
    using a b c d by simp
qed

text \<open>
  Claim C7. Without a media handle \<^verbatim>\<open>set_position_action\<close> returns the slot
  unchanged. With a media handle and the position slider at \<open>p\<close>, from 0 to 1000, it
  makes exactly three calls, in this order: it stops the shared timer, sets the native
  position to \<open>p / 1000\<close>, and starts the timer; the timer is running afterwards. For
  \<open>p = 500\<close> the position set is one half. The quotient is taken in the reals, where
  Python computes the float nearest to it.
\<close>

theorem set_position_action_seeks:
  assumes "0 \<le> position_slider (panel s)" and "position_slider (panel s) \<le> 1000"
  shows "(media (self s) = None \<longrightarrow> set_position_action s = s) \<and>
     (media (self s) \<noteq> None \<longrightarrow>
        calls (set_position_action s) =
          calls s @ [TimerStop, SetPosition (real_of_int (position_slider (panel s)) / 1000),
                     TimerStart] \<and>
        np_position (vlc_player (self (set_position_action s))) =
          real_of_int (position_slider (panel s)) / 1000 \<and>
        active (timer (set_position_action s)) \<and>
        (position_slider (panel s) = 500 \<longrightarrow>
           np_position (vlc_player (self (set_position_action s))) = 1 / 2))"
  by (auto simp add: set_position_action_def vlc_set_position_def upd_vlc_def Let_def)

theorem set_position_action_seeks_witness:
  "0 \<le> position_slider (panel sample_dragged) \<and>
   position_slider (panel sample_dragged) \<le> 1000 \<and>
   media (self sample_dragged) \<noteq> None \<and>
   position_slider (panel sample_dragged) = 500 \<and>
   calls (set_position_action sample_dragged) =
     calls sample_dragged @ [TimerStop, SetPosition (1 / 2), TimerStart] \<and>
   np_position (vlc_player (self (set_position_action sample_dragged))) = 1 / 2 \<and>
   active (timer (set_position_action sample_dragged)) \<and>
   0 \<le> position_slider (panel sample_slot) \<and>
   position_slider (panel sample_slot) \<le> 1000 \<and>
   media (self sample_slot) = None \<and>
   set_position_action sample_slot = sample_slot"
proof -
  have p: "position_slider (panel sample_dragged) = 500"
    by (simp add: sample_dragged_def)
  have h1: "0 \<le> position_slider (panel sample_dragged)"
    and h2: "position_slider (panel sample_dragged) \<le> 1000"
    by (simp_all add: p)
  have m: "media (self sample_dragged) \<noteq> None"
    using sample_opened_self(1) by (simp add: sample_dragged_def self_def)
  have q: "position_slider (panel sample_slot) = 0"
    by (simp add: sample_slot_eq new_control_panel_def)
  have k1: "0 \<le> position_slider (panel sample_slot)"
    and k2: "position_slider (panel sample_slot) \<le> 1000"
    by (simp_all add: q)
  have n: "media (self sample_slot) = None"
    by (simp add: sample_slot_self new_player_window_def)
  have a: "set_position_action sample_slot = sample_slot"
    using set_position_action_seeks [OF k1 k2] n by blast
  show ?thesis
    using set_position_action_seeks [OF h1 h2] m p a n k1 k2 by simp
qed

section \<open>Opening and closing\<close>

text \<open>
  Claim C4. Without a media handle \<^verbatim>\<open>close_action\<close> returns the slot unchanged
  and raises nothing. With a media handle on a windowed slot it hides the window, stops the
  transport and detaches the media from the player, in this order, and drops the handle.
  With a media handle on a full-screen slot (whose saved geometry is what the transition to
  full screen stored) the calls of the transition back to a normal window come first: the
  window ends hidden, not full screen, with the saved flags, margins, position and size,
  and the handle is released in the same way.
\<close>

theorem close_action_releases:
  "(media (self s) = None \<longrightarrow> close_action s = Inr s) \<and>
   (media (self s) \<noteq> None \<and> \<not> is_fullscreen (self s) \<longrightarrow>
      (\<exists>s'. close_action s = Inr s' \<and>
         calls s' = calls s @ [Hide, Stop, SetMedia None] \<and>
         isHidden (self s') \<and> media (self s') = None \<and>
         np_media (vlc_player (self s')) = None \<and> \<not> np_playing (vlc_player (self s')) \<and>
         \<not> is_fullscreen (self s'))) \<and>
   (media (self s) \<noteq> None \<and> is_fullscreen (self s) \<and>
    wnd_flags (self s) = Some f \<and> ly_margins (self s) = Some mg \<and>
    wnd_x (self s) = Some x \<and> wnd_y (self s) = Some y \<and>
    wnd_w (self s) = Some w \<and> wnd_h (self s) = Some h \<longrightarrow>
      (\<exists>s'. close_action s = Inr s' \<and>
         calls s' = calls s @ [Hide, ShowNormal, Hide, Stop, SetMedia None] \<and>
         \<not> is_fullscreen (self s') \<and> \<not> isFullScreen (self s') \<and>
         windowFlags (self s') = f \<and> layout (self s') = mg \<and>
         pos_x (self s') = x \<and> pos_y (self s') = y \<and>
         width (self s') = w \<and> height (self s') = h \<and>
         isHidden (self s') \<and> media (self s') = None \<and>
         np_media (vlc_player (self s')) = None \<and> \<not> np_playing (vlc_player (self s'))))"
proof (intro conjI impI)
  assume "media (self s) = None"
  then show "close_action s = Inr s" by (simp add: close_action_def)
next
  assume a: "media (self s) \<noteq> None \<and> \<not> is_fullscreen (self s)"
  then obtain m where m: "media (self s) = Some m" by blast
  show "\<exists>s'. close_action s = Inr s' \<and>
         calls s' = calls s @ [Hide, Stop, SetMedia None] \<and>
         isHidden (self s') \<and> media (self s') = None \<and>
         np_media (vlc_player (self s')) = None \<and> \<not> np_playing (vlc_player (self s')) \<and>
         \<not> is_fullscreen (self s')"
    unfolding close_windowed [OF m conjunct2 [OF a]]
    using m conjunct2 [OF a] by (simp add: calls_release_media self_release_media hide_def)
next
  assume a: "media (self s) \<noteq> None \<and> is_fullscreen (self s) \<and>
    wnd_flags (self s) = Some f \<and> ly_margins (self s) = Some mg \<and>
    wnd_x (self s) = Some x \<and> wnd_y (self s) = Some y \<and>
    wnd_w (self s) = Some w \<and> wnd_h (self s) = Some h"
  then obtain m where m: "media (self s) = Some m" by blast
  from a have t: "toggle_fullscreen_action s =
    Inr (upd_self (\<lambda>p. p\<lparr>is_fullscreen := False\<rparr>)
      (showNormal (resize w h (move x y
        (setContentsMargins (m_left mg) (m_top mg) (m_right mg) (m_bottom mg)
          (setWindowFlags f (hide s)))))))"
    using toggle_leave [OF m] by blast
  show "\<exists>s'. close_action s = Inr s' \<and>
         calls s' = calls s @ [Hide, ShowNormal, Hide, Stop, SetMedia None] \<and>
         \<not> is_fullscreen (self s') \<and> \<not> isFullScreen (self s') \<and>
         windowFlags (self s') = f \<and> layout (self s') = mg \<and>
         pos_x (self s') = x \<and> pos_y (self s') = y \<and>
         width (self s') = w \<and> height (self s') = h \<and>
         isHidden (self s') \<and> media (self s') = None \<and>
         np_media (vlc_player (self s')) = None \<and> \<not> np_playing (vlc_player (self s'))"
    unfolding close_fullscreen [OF m _ t, OF conjunct1 [OF conjunct2 [OF a]]]
    using m by (simp add: calls_release_media self_release_media window_defs)
qed

theorem close_action_releases_witness:
  "media (self sample_slot) = None \<and> close_action sample_slot = Inr sample_slot \<and>
   media (self sample_opened) \<noteq> None \<and> \<not> is_fullscreen (self sample_opened) \<and>
   (\<exists>s'. close_action sample_opened = Inr s' \<and>
      calls s' = calls sample_opened @ [Hide, Stop, SetMedia None] \<and>
      isHidden (self s') \<and> media (self s') = None) \<and>
   media (self sample_fullscreen) \<noteq> None \<and> is_fullscreen (self sample_fullscreen) \<and>
   (\<exists>s'. close_action sample_fullscreen = Inr s' \<and>
      calls s' = calls sample_fullscreen @ [Hide, ShowNormal, Hide, Stop, SetMedia None] \<and>
      \<not> is_fullscreen (self s') \<and> windowFlags (self s') = 1 \<and>
      pos_x (self s') = 40 \<and> pos_y (self s') = 30 \<and>
      width (self s') = 640 \<and> height (self s') = 480 \<and>
      isHidden (self s') \<and> media (self s') = None)"
proof -
  have a: "media (self sample_slot) = None"
    by (simp add: sample_slot_self new_player_window_def)
  have b: "media (self sample_opened) \<noteq> None \<and> \<not> is_fullscreen (self sample_opened)"
    by (simp add: sample_opened_self new_player_window_def)
  have c: "media (self sample_fullscreen) \<noteq> None \<and> is_fullscreen (self sample_fullscreen) \<and>
    wnd_flags (self sample_fullscreen) = Some 1 \<and>
    ly_margins (self sample_fullscreen) =
      Some \<lparr>m_left = 9, m_top = 9, m_right = 9, m_bottom = 9\<rparr> \<and>
    wnd_x (self sample_fullscreen) = Some 40 \<and> wnd_y (self sample_fullscreen) = Some 30 \<and>
    wnd_w (self sample_fullscreen) = Some 640 \<and> wnd_h (self sample_fullscreen) = Some 480"
    by (simp add: sample_fullscreen_self)
  have 1: "close_action sample_slot = Inr sample_slot"
    using close_action_releases [of sample_slot] a by blast
  have 2: "\<exists>s'. close_action sample_opened = Inr s' \<and>
      calls s' = calls sample_opened @ [Hide, Stop, SetMedia None] \<and>
      isHidden (self s') \<and> media (self s') = None"
    using close_action_releases [of sample_opened] b by blast
  have 3: "\<exists>s'. close_action sample_fullscreen = Inr s' \<and>
      calls s' = calls sample_fullscreen @ [Hide, ShowNormal, Hide, Stop, SetMedia None] \<and>
      \<not> is_fullscreen (self s') \<and> windowFlags (self s') = 1 \<and>
      pos_x (self s') = 40 \<and> pos_y (self s') = 30 \<and>
      width (self s') = 640 \<and> height (self s') = 480 \<and>
      isHidden (self s') \<and> media (self s') = None"
    using close_action_releases [of sample_fullscreen 1
        "\<lparr>m_left = 9, m_top = 9, m_right = 9, m_bottom = 9\<rparr>" 40 30 640 480] c
    by blast
  show ?thesis using a b c 1 2 3 by blast
qed

text \<open>
  Claim C5. A cancelled dialog (an empty file name) leaves the slot unchanged. For a
  non-empty file name \<^verbatim>\<open>open_action\<close> is the same as opening on the released slot,
  which has no handle: if a handle existed the transport is stopped and the media detached
  before \<^verbatim>\<open>media_new\<close> is called. The new handle is the object just created, it is
  the media of the slot's player, and it differs from every media object the instance
  created before, the slot's previous handle among them. The calls made are listed in order;
  \<^verbatim>\<open>audio_set_volume\<close> is among them exactly when setting the volume slider to
  \<^verbatim>\<open>_volume\<close> changes the slider's value.
\<close>

theorem open_action_replaces:
  assumes "filename \<noteq> []"
  shows "open_action [] title s = s \<and>
     media (self (release_media s)) = None \<and>
     open_action filename title s = open_action filename title (release_media s) \<and>
     media (self (open_action filename title s)) =
       Some (Media (created (vlc_instance (self s))) filename) \<and>
     np_media (vlc_player (self (open_action filename title s))) =
       media (self (open_action filename title s)) \<and>
     created (vlc_instance (self (open_action filename title s))) =
       Suc (created (vlc_instance (self s))) \<and>
     calls (open_action filename title s) =
       calls s @ (if media (self s) = None then [] else [Stop, SetMedia None]) @
       [MediaNew filename,
        SetMedia (Some (Media (created (vlc_instance (self s))) filename)),
        Parse (Media (created (vlc_instance (self s))) filename)] @
       (if qBound 0 (volume (self s)) 100 = volume_slider (panel s) then []
        else [AudioSetVolume (qBound 0 (volume (self s)) 100)]) @
       [Show] \<and>
     \<not> isHidden (self (open_action filename title s)) \<and>
     (\<forall>old. media_id old < created (vlc_instance (self s)) \<longrightarrow>
            media (self (open_action filename title s)) \<noteq> Some old) \<and>
     (handle_allocated (self s) \<longrightarrow>
        media (self (open_action filename title s)) \<noteq> media (self s) \<and>
        handle_allocated (self (open_action filename title s)))"
proof (intro conjI)
  show "open_action [] title s = s"
    by (simp add: open_action_def)
  show "media (self (release_media s)) = None"
    by (simp add: self_release_media)
  show "open_action filename title s = open_action filename title (release_media s)"
    using assms by (simp add: open_action_def release_media_twice)
  show m: "media (self (open_action filename title s)) =
       Some (Media (created (vlc_instance (self s))) filename)"
    using assms
    by (simp add: open_action_def Let_def engine_defs window_defs self_release_media
          self_volume_slider_setValue self_set_volume_action)
  show "np_media (vlc_player (self (open_action filename title s))) =
       media (self (open_action filename title s))"
    using assms
    by (simp add: open_action_def Let_def engine_defs window_defs self_release_media
          self_volume_slider_setValue self_set_volume_action)
  show c: "created (vlc_instance (self (open_action filename title s))) =
       Suc (created (vlc_instance (self s)))"
    using assms
    by (simp add: open_action_def Let_def engine_defs window_defs self_release_media
          self_volume_slider_setValue self_set_volume_action)
  show "calls (open_action filename title s) =
       calls s @ (if media (self s) = None then [] else [Stop, SetMedia None]) @
       [MediaNew filename,
        SetMedia (Some (Media (created (vlc_instance (self s))) filename)),
        Parse (Media (created (vlc_instance (self s))) filename)] @
       (if qBound 0 (volume (self s)) 100 = volume_slider (panel s) then []
        else [AudioSetVolume (qBound 0 (volume (self s)) 100)]) @
       [Show]"
    using assms
    by (simp add: open_action_def Let_def engine_defs window_defs self_release_media
          calls_release_media calls_volume_slider_setValue calls_set_volume_action
          volume_slider_release_media)
  show "\<not> isHidden (self (open_action filename title s))"
    using assms
    by (simp add: open_action_def Let_def show_widget_def vlc_media_new_def)
  show "\<forall>old. media_id old < created (vlc_instance (self s)) \<longrightarrow>
            media (self (open_action filename title s)) \<noteq> Some old"
    by (auto simp add: m)
  show "handle_allocated (self s) \<longrightarrow>
        media (self (open_action filename title s)) \<noteq> media (self s) \<and>
        handle_allocated (self (open_action filename title s))"
    by (auto simp add: m c handle_allocated_def split: option.splits)
qed

theorem open_action_replaces_witness:
  "''/tmp/b.mp4'' \<noteq> [] \<and>
   open_action [] (Some ''b.mp4'') sample_opened = sample_opened \<and>
   handle_allocated (self sample_opened) \<and>
   media (self sample_opened) = Some (Media 0 ''/tmp/a.mp4'') \<and>
   media (self (open_action ''/tmp/b.mp4'' (Some ''b.mp4'') sample_opened)) =
     Some (Media 1 ''/tmp/b.mp4'') \<and>
   np_media (vlc_player (self (open_action ''/tmp/b.mp4'' (Some ''b.mp4'') sample_opened))) =
     Some (Media 1 ''/tmp/b.mp4'') \<and>
   calls (open_action ''/tmp/b.mp4'' (Some ''b.mp4'') sample_opened) =
     calls sample_opened @
       [Stop, SetMedia None, MediaNew ''/tmp/b.mp4'',
        SetMedia (Some (Media 1 ''/tmp/b.mp4'')), Parse (Media 1 ''/tmp/b.mp4''), Show] \<and>
   media (self (open_action ''/tmp/b.mp4'' (Some ''b.mp4'') sample_opened)) \<noteq>
     media (self sample_opened) \<and>
   calls (open_action ''/tmp/b.mp4'' None sample_quiet) =
     [MediaNew ''/tmp/b.mp4'', SetMedia (Some (Media 0 ''/tmp/b.mp4'')),
      Parse (Media 0 ''/tmp/b.mp4''), AudioSetVolume 35, Show]"
proof -
  have h: "''/tmp/b.mp4'' \<noteq> []" by simp
  have m: "media (self sample_opened) = Some (Media 0 ''/tmp/a.mp4'')"
    "created (vlc_instance (self sample_opened)) = 1"
    "volume (self sample_opened) = 100"
    by (simp_all add: sample_opened_self new_player_window_def)
  have v: "volume_slider (panel sample_opened) = 100"
    by (simp add: sample_opened_eq sample_slot_eq new_control_panel_def)
  have a: "handle_allocated (self sample_opened)"
    by (simp add: handle_allocated_def m)
  have q: "qBound 0 100 100 = 100" "qBound 0 35 100 = 35"
    by (simp_all add: qBound_def)
  note t1 = open_action_replaces [OF h, of "Some ''b.mp4''" sample_opened]
  note t2 = open_action_replaces [OF h, of None sample_quiet]
  have 1: "open_action [] (Some ''b.mp4'') sample_opened = sample_opened"
    using t1 by blast
  have 2: "media (self (open_action ''/tmp/b.mp4'' (Some ''b.mp4'') sample_opened)) =
     Some (Media 1 ''/tmp/b.mp4'')"
  proof -
    from t1 have "media (self (open_action ''/tmp/b.mp4'' (Some ''b.mp4'') sample_opened)) =
      Some (Media (created (vlc_instance (self sample_opened))) ''/tmp/b.mp4'')"
      by blast
    then show ?thesis by (simp add: m)
  qed
  have 3: "np_media (vlc_player (self (open_action ''/tmp/b.mp4'' (Some ''b.mp4'') sample_opened))) =
     Some (Media 1 ''/tmp/b.mp4'')"
  proof -
    from t1 have "np_media (vlc_player (self (open_action ''/tmp/b.mp4'' (Some ''b.mp4'')
        sample_opened))) =
      media (self (open_action ''/tmp/b.mp4'' (Some ''b.mp4'') sample_opened))"
      by blast
    then show ?thesis by (simp add: 2)
  qed
  have 4: "calls (open_action ''/tmp/b.mp4'' (Some ''b.mp4'') sample_opened) =
     calls sample_opened @
       [Stop, SetMedia None, MediaNew ''/tmp/b.mp4'',
        SetMedia (Some (Media 1 ''/tmp/b.mp4'')), Parse (Media 1 ''/tmp/b.mp4''), Show]"
  proof -
    from t1 have "calls (open_action ''/tmp/b.mp4'' (Some ''b.mp4'') sample_opened) =
       calls sample_opened @
       (if media (self sample_opened) = None then [] else [Stop, SetMedia None]) @
       [MediaNew ''/tmp/b.mp4'',
        SetMedia (Some (Media (created (vlc_instance (self sample_opened))) ''/tmp/b.mp4'')),
        Parse (Media (created (vlc_instance (self sample_opened))) ''/tmp/b.mp4'')] @
       (if qBound 0 (volume (self sample_opened)) 100 = volume_slider (panel sample_opened)
        then [] else [AudioSetVolume (qBound 0 (volume (self sample_opened)) 100)]) @
       [Show]"
      by blast
    then show ?thesis by (simp add: m v q)
  qed
  have 5: "media (self (open_action ''/tmp/b.mp4'' (Some ''b.mp4'') sample_opened)) \<noteq>
     media (self sample_opened)"
    using t1 a by blast
  have 6: "calls (open_action ''/tmp/b.mp4'' None sample_quiet) =
     [MediaNew ''/tmp/b.mp4'', SetMedia (Some (Media 0 ''/tmp/b.mp4'')),
      Parse (Media 0 ''/tmp/b.mp4''), AudioSetVolume 35, Show]"
  proof -
    from t2 have "calls (open_action ''/tmp/b.mp4'' None sample_quiet) =
       calls sample_quiet @
       (if media (self sample_quiet) = None then [] else [Stop, SetMedia None]) @
       [MediaNew ''/tmp/b.mp4'',
        SetMedia (Some (Media (created (vlc_instance (self sample_quiet))) ''/tmp/b.mp4'')),
        Parse (Media (created (vlc_instance (self sample_quiet))) ''/tmp/b.mp4'')] @
       (if qBound 0 (volume (self sample_quiet)) 100 = volume_slider (panel sample_quiet)
        then [] else [AudioSetVolume (qBound 0 (volume (self sample_quiet)) 100)]) @
       [Show]"
      by blast
    then show ?thesis by (simp add: sample_quiet_self sample_quiet_panel q)
  qed
  show ?thesis
    using h a m(1) 1 2 3 4 5 6 by blast
qed

section \<open>Who writes the full-screen bookkeeping\<close>

text \<open>
  Claim C10. \<^verbatim>\<open>open_action\<close>, \<^verbatim>\<open>play_pause_action\<close>,
  \<^verbatim>\<open>stop_action\<close>, \<^verbatim>\<open>set_volume_action\<close> and \<^verbatim>\<open>set_position_action\<close> leave
  the full-screen flag and the six saved fields as they were. So does \<^verbatim>\<open>close_action\<close>
  on a windowed slot; on a full-screen slot with a media handle it clears the flag, through
  \<^verbatim>\<open>toggle_fullscreen_action\<close>, which flips the flag whenever a media handle exists.
\<close>

theorem fullscreen_state_frame:
  "fullscreen_state (self (open_action filename title s)) = fullscreen_state (self s) \<and>
   fullscreen_state (self (play_pause_action rc s)) = fullscreen_state (self s) \<and>
   fullscreen_state (self (stop_action s)) = fullscreen_state (self s) \<and>
   fullscreen_state (self (set_volume_action v s)) = fullscreen_state (self s) \<and>
   fullscreen_state (self (set_position_action s)) = fullscreen_state (self s) \<and>
   (\<not> is_fullscreen (self s) \<longrightarrow>
      (\<forall>s'. close_action s = Inr s' \<longrightarrow>
         fullscreen_state (self s') = fullscreen_state (self s))) \<and>
   (is_fullscreen (self s) \<and> media (self s) \<noteq> None \<longrightarrow>
      (\<forall>s'. close_action s = Inr s' \<longrightarrow> \<not> is_fullscreen (self s'))) \<and>
   (media (self s) \<noteq> None \<longrightarrow>
      (\<forall>s'. toggle_fullscreen_action s = Inr s' \<longrightarrow>
         is_fullscreen (self s') = (\<not> is_fullscreen (self s))))"
proof (intro conjI)
  show "fullscreen_state (self (open_action filename title s)) = fullscreen_state (self s)"
    by (simp add: open_action_def Let_def engine_defs window_defs self_release_media
          self_volume_slider_setValue self_set_volume_action fullscreen_state_def)
  show "fullscreen_state (self (play_pause_action rc s)) = fullscreen_state (self s)"
    by (simp add: play_pause_action_def Let_def engine_defs window_defs fullscreen_state_def)
  show "fullscreen_state (self (stop_action s)) = fullscreen_state (self s)"
    by (simp add: stop_action_def engine_defs fullscreen_state_def)
  show "fullscreen_state (self (set_volume_action v s)) = fullscreen_state (self s)"
    by (simp add: set_volume_action_def Let_def engine_defs fullscreen_state_def)
  show "fullscreen_state (self (set_position_action s)) = fullscreen_state (self s)"
    by (simp add: set_position_action_def Let_def engine_defs fullscreen_state_def)
  show "\<not> is_fullscreen (self s) \<longrightarrow>
      (\<forall>s'. close_action s = Inr s' \<longrightarrow>
         fullscreen_state (self s') = fullscreen_state (self s))"
    by (auto simp add: close_action_def fullscreen_state_release_media
          split: if_splits)
       (simp add: fullscreen_state_def hide_def)
  show "is_fullscreen (self s) \<and> media (self s) \<noteq> None \<longrightarrow>
      (\<forall>s'. close_action s = Inr s' \<longrightarrow> \<not> is_fullscreen (self s'))"
    by (auto simp add: close_action_def toggle_fullscreen_action_def Let_def window_defs
          self_release_media split: option.splits if_splits sum.splits)
  show "media (self s) \<noteq> None \<longrightarrow>
      (\<forall>s'. toggle_fullscreen_action s = Inr s' \<longrightarrow>
         is_fullscreen (self s') = (\<not> is_fullscreen (self s)))"
    by (auto simp add: toggle_fullscreen_action_def Let_def window_defs
          split: option.splits if_splits)
qed

theorem fullscreen_state_frame_witness:
  "fullscreen_state (self (open_action ''/tmp/b.mp4'' (Some ''b.mp4'') sample_fullscreen)) =
      fullscreen_state (self sample_fullscreen) \<and>
   is_fullscreen (self sample_fullscreen) \<and>
   \<not> is_fullscreen (self sample_opened) \<and>
   (\<exists>s'. close_action sample_opened = Inr s' \<and>
      fullscreen_state (self s') = fullscreen_state (self sample_opened)) \<and>
   media (self sample_fullscreen) \<noteq> None \<and>
   (\<exists>s'. close_action sample_fullscreen = Inr s' \<and> \<not> is_fullscreen (self s')) \<and>
   media (self sample_opened) \<noteq> None \<and>
   (\<exists>s'. toggle_fullscreen_action sample_opened = Inr s' \<and> is_fullscreen (self s'))"
proof -
  note fr = fullscreen_state_frame
  have m: "media (self sample_opened) = Some (Media 0 ''/tmp/a.mp4'')"
    by (simp add: sample_opened_self)
  have f: "\<not> is_fullscreen (self sample_opened)"
    by (simp add: sample_opened_self new_player_window_def)
  have 2: "close_action sample_opened = Inr (release_media (hide sample_opened))"
    by (rule close_windowed [OF m f])
  obtain s3 where 3: "toggle_fullscreen_action sample_fullscreen = Inr s3"
    using toggle_leave [OF sample_fullscreen_self] by blast
  have 4: "close_action sample_fullscreen = Inr (release_media (hide s3))"
    by (rule close_fullscreen [OF sample_fullscreen_self(1,2) 3])
  obtain s5 where 5: "toggle_fullscreen_action sample_opened = Inr s5"
    using toggle_enter [OF m f] by blast
  have a: "fullscreen_state (self (open_action ''/tmp/b.mp4'' (Some ''b.mp4'') sample_fullscreen)) =
      fullscreen_state (self sample_fullscreen)"
    using fr [of "''/tmp/b.mp4''" "Some ''b.mp4''" sample_fullscreen] by blast
  have b: "fullscreen_state (self (release_media (hide sample_opened))) =
      fullscreen_state (self sample_opened)"
    using fr [of _ _ sample_opened] f 2 by blast
  have c: "\<not> is_fullscreen (self (release_media (hide s3)))"
    using fr [of _ _ sample_fullscreen] sample_fullscreen_self(1,2) 4 by blast
  have d: "is_fullscreen (self s5)"
    using fr [of _ _ sample_opened] m f 5 by auto
  show ?thesis
    using 2 4 5 a b c d m f sample_fullscreen_self(1,2) by auto
qed

section \<open>The refresh tick\<close>

text \<open>
  Claim C8 says that a panel with a media handle shows the native position times 1000,
  rounded. The source converts with \<^verbatim>\<open>int()\<close>, which drops the fraction. In the sample
  main window the first panel plays at position \<open>1/1024\<close>: a thousand times that is
  \<open>0.9765625\<close>, which rounds to 1, and the slider is set to 0.
\<close>

theorem update_ui_round_counterexample:
  "media (player (controls sample_main ! 0)) \<noteq> None \<and>
   np_position (vlc_player (player (controls sample_main ! 0))) = 1 / 1024 \<and>
   round (np_position (vlc_player (player (controls sample_main ! 0))) * 1000) = 1 \<and>
   position_slider (controls (main_update_ui sample_main) ! 0) = 0"
proof -
  have r: "round (125 / 128 :: real) = 1"
    by (simp add: round_def floor_eq_iff)
  have u: "position_slider (update_ui sample_playing) = 0"
    by (simp add: update_ui_def sample_playing_player py_int_def qBound_def)
  show ?thesis
    by (simp add: sample_main_controls sample_playing_player r u main_update_ui_def)
qed

text \<open>
  Claim C8, amended. After \<^verbatim>\<open>MainWindow.update_ui\<close> every panel without a media handle
  shows position 0 and the label \<^verbatim>\<open>Play\<close>; every panel with a media handle shows the
  native position times 1000 with the fraction dropped (\<^verbatim>\<open>int()\<close>, towards zero), kept
  within the slider's range 0 to 1000, and the label \<^verbatim>\<open>Pause\<close> if the native player
  reports playing, \<^verbatim>\<open>Play\<close> otherwise. So a native position from 0 to 1 shows as the
  floor of the product, and a negative one (the engine's \<open>-1\<close>) as 0.
\<close>

theorem main_update_ui_shows:
  assumes "i < length (controls mw)"
  shows "length (controls (main_update_ui mw)) = length (controls mw) \<and>
     (media (player (controls mw ! i)) = None \<longrightarrow>
        position_slider (controls (main_update_ui mw) ! i) = 0 \<and>
        play_pause_button (controls (main_update_ui mw) ! i) = ''Play'') \<and>
     (media (player (controls mw ! i)) \<noteq> None \<longrightarrow>
        position_slider (controls (main_update_ui mw) ! i) =
          qBound 0 (py_int (np_position (vlc_player (player (controls mw ! i))) * 1000)) 1000 \<and>
        play_pause_button (controls (main_update_ui mw) ! i) =
          (if np_playing (vlc_player (player (controls mw ! i))) then ''Pause'' else ''Play'')) \<and>
     (media (player (controls mw ! i)) \<noteq> None \<and>
      0 \<le> np_position (vlc_player (player (controls mw ! i))) \<and>
      np_position (vlc_player (player (controls mw ! i))) \<le> 1 \<longrightarrow>
        position_slider (controls (main_update_ui mw) ! i) =
          \<lfloor>np_position (vlc_player (player (controls mw ! i))) * 1000\<rfloor>) \<and>
     (media (player (controls mw ! i)) \<noteq> None \<and>
      np_position (vlc_player (player (controls mw ! i))) < 0 \<longrightarrow>
        position_slider (controls (main_update_ui mw) ! i) = 0)"
proof -
  define c where "c = controls mw ! i"
  define x where "x = np_position (vlc_player (player c)) * 1000"
  have u: "controls (main_update_ui mw) ! i = update_ui c"
    using assms by (simp add: main_update_ui_def c_def)
  have 1: "length (controls (main_update_ui mw)) = length (controls mw)"
    by (simp add: main_update_ui_def)
  have 2: "position_slider (update_ui c) = 0 \<and> play_pause_button (update_ui c) = ''Play''"
    if "media (player c) = None"
    using that by (simp add: update_ui_def qBound_def)
  have 3: "position_slider (update_ui c) = qBound 0 (py_int x) 1000 \<and>
      play_pause_button (update_ui c) =
        (if np_playing (vlc_player (player c)) then ''Pause'' else ''Play'')"
    if "media (player c) \<noteq> None"
    using that by (auto simp add: update_ui_def x_def)
  have 4: "qBound 0 (py_int x) 1000 = \<lfloor>x\<rfloor>"
    if "0 \<le> np_position (vlc_player (player c))" "np_position (vlc_player (player c)) \<le> 1"
  proof -
    from that have "0 \<le> x" "x \<le> 1000" by (simp_all add: x_def)
    then have "0 \<le> \<lfloor>x\<rfloor>" "\<lfloor>x\<rfloor> \<le> 1000" "py_int x = \<lfloor>x\<rfloor>"
      by (simp_all add: floor_le_iff py_int_def)
    then show ?thesis by (simp add: qBound_def)
  qed
  have 5: "qBound 0 (py_int x) 1000 = 0" if "np_position (vlc_player (player c)) < 0"
  proof -
    from that have "x < 0" by (simp add: x_def)
    then have "py_int x = \<lceil>x\<rceil>" "\<lceil>x\<rceil> \<le> 0"
      by (simp_all add: py_int_def ceiling_le_iff)
    then show ?thesis by (simp add: qBound_def)
  qed
  show ?thesis
    unfolding u c_def [symmetric] using 1 2 3 4 5 by (simp add: x_def)
qed

theorem main_update_ui_shows_witness:
  "0 < length (controls sample_main) \<and> 1 < length (controls sample_main) \<and>
   2 < length (controls sample_main) \<and>
   media (player (controls sample_main ! 0)) \<noteq> None \<and>
   0 \<le> np_position (vlc_player (player (controls sample_main ! 0))) \<and>
   np_position (vlc_player (player (controls sample_main ! 0))) \<le> 1 \<and>
   position_slider (controls (main_update_ui sample_main) ! 0) = 0 \<and>
   play_pause_button (controls (main_update_ui sample_main) ! 0) = ''Pause'' \<and>
   media (player (controls sample_main ! 1)) \<noteq> None \<and>
   np_position (vlc_player (player (controls sample_main ! 1))) < 0 \<and>
   position_slider (controls (main_update_ui sample_main) ! 1) = 0 \<and>
   play_pause_button (controls (main_update_ui sample_main) ! 1) = ''Play'' \<and>
   media (player (controls sample_main ! 2)) = None \<and>
   position_slider (controls (main_update_ui sample_main) ! 2) = 0 \<and>
   play_pause_button (controls (main_update_ui sample_main) ! 2) = ''Play''"
proof -
  have l: "0 < length (controls sample_main)" "1 < length (controls sample_main)"
    "2 < length (controls sample_main)"
    by (simp_all add: sample_main_controls)
  have t: "\<lfloor>125 / 128 :: real\<rfloor> = 0"
    by (simp add: floor_eq_iff)
  have a: "position_slider (controls (main_update_ui sample_main) ! 0) = 0 \<and>
     play_pause_button (controls (main_update_ui sample_main) ! 0) = ''Pause''"
    using main_update_ui_shows [OF l(1)]
    by (simp add: sample_main_controls(1) sample_playing_player t)
  have b: "position_slider (controls (main_update_ui sample_main) ! 1) = 0 \<and>
     play_pause_button (controls (main_update_ui sample_main) ! 1) = ''Play''"
    using main_update_ui_shows [OF l(2)]
    by (simp add: sample_main_controls(2) sample_idle_player)
  have c: "position_slider (controls (main_update_ui sample_main) ! 2) = 0 \<and>
     play_pause_button (controls (main_update_ui sample_main) ! 2) = ''Play''"
    using main_update_ui_shows [OF l(3)] sample_main_controls(4) by blast
  show ?thesis
    using l a b c sample_main_controls(4)
    by (simp add: sample_main_controls(1,2) sample_playing_player sample_idle_player)
qed

end
